theory Spec2Isabelle
  imports Complex_Main "HOL-Library.Char_ord" "HOL-Library.List_Lexorder"
begin

section \<open>Python values, exceptions and effects\<close>

text \<open>
  The scripts are Python.  A tuple or list of numbers is a HOL list, so that the
  number of components of a point or of a segment is a property to be proved and
  not a consequence of a type.  Coordinates are kept polymorphic (\<open>'c\<close>): the
  extraction code only copies them.
\<close>

type_synonym path = string

type_synonym 'c point = "'c list"

type_synonym 'c segment = "'c point list"

text \<open>
  Exceptions.  \<open>KeyboardInterrupt\<close> stands for the exceptions that derive from
  \<open>BaseException\<close> only: an \<open>except Exception\<close> clause does not catch them.
\<close>

datatype exn =
    DXFStructureError string
  | ValueError string
  | AttributeError string
  | IndexError string
  | OSError string
  | OtherException string
  | KeyboardInterrupt

fun is_Exception :: "exn \<Rightarrow> bool" where
  "is_Exception KeyboardInterrupt = False"
| "is_Exception _ = True"

fun is_DXFStructureError :: "exn \<Rightarrow> bool" where
  "is_DXFStructureError (DXFStructureError _) = True"
| "is_DXFStructureError _ = False"

text \<open>\<open>str(e)\<close>, as interpolated by \<open>f"...{e}..."\<close>.\<close>

fun str_exn :: "exn \<Rightarrow> string" where
  "str_exn (DXFStructureError m) = m"
| "str_exn (ValueError m) = m"
| "str_exn (AttributeError m) = m"
| "str_exn (IndexError m) = m"
| "str_exn (OSError m) = m"
| "str_exn (OtherException m) = m"
| "str_exn KeyboardInterrupt = []"

text \<open>Subscription \<open>xs[i]\<close> and the unpacking \<open>a, b = xs\<close>, with their failures.\<close>

definition subscript :: "'a list \<Rightarrow> nat \<Rightarrow> exn + 'a" where
  "subscript xs i =
     (if i < length xs then Inr (xs ! i) else Inl (IndexError ''list index out of range''))"

fun unpack2 :: "'a list \<Rightarrow> exn + ('a \<times> 'a)" where
  "unpack2 [a, b] = Inr (a, b)"
| "unpack2 [] = Inl (ValueError ''not enough values to unpack (expected 2, got 0)'')"
| "unpack2 [a] = Inl (ValueError ''not enough values to unpack (expected 2, got 1)'')"
| "unpack2 _ = Inl (ValueError ''too many values to unpack (expected 2)'')"

definition NL :: string where
  "NL = [CHR 0x0A]"

text \<open>\<open>'{p}'\<close> inside an f-string: the text between apostrophes.\<close>

definition quoted :: "string \<Rightarrow> string" where
  "quoted s = [CHR 0x27] @ s @ [CHR 0x27]"

section \<open>DXF documents as the ezdxf library presents them\<close>

text \<open>
  \<open>entity.get_points()\<close> of an LWPOLYLINE yields 5-tuples
  \<open>(x, y, start_width, end_width, bulge)\<close>; \<open>entity.dxf.start\<close>,
  \<open>entity.dxf.end\<close> and the location of a vertex are 3-vectors.  The code
  reads the components 0 and 1 only.
\<close>

type_synonym 'c lwpoint = "'c \<times> 'c \<times> 'c \<times> 'c \<times> 'c"

type_synonym 'c vec3 = "'c \<times> 'c \<times> 'c"

definition lw0 :: "'c lwpoint \<Rightarrow> 'c" where
  "lw0 p = fst p"

definition lw1 :: "'c lwpoint \<Rightarrow> 'c" where
  "lw1 p = fst (snd p)"

definition v0 :: "'c vec3 \<Rightarrow> 'c" where
  "v0 p = fst p"

definition v1 :: "'c vec3 \<Rightarrow> 'c" where
  "v1 p = fst (snd p)"

text \<open>
  \<open>entity.points()\<close> of a POLYLINE yields the locations of its vertices as
  bare 3-vectors (ezdxf's \<open>Vec3\<close>), not the VERTEX entities.  Such an item has
  no attribute \<open>dxf\<close>: reading \<open>vertex.dxf.location\<close> from it raises
  \<open>AttributeError\<close>, and \<open>hasattr(vertex, 'dxf')\<close> is false.
\<close>

definition dxf_location :: "'c vec3 \<Rightarrow> exn + 'c vec3" where
  "dxf_location vertex = Inl (AttributeError ''Vec3 object has no attribute dxf'')"

datatype 'c entity =
    LWPOLYLINE "'c lwpoint list" bool
  | POLYLINE "'c vec3 list" bool
  | LINE "'c vec3" "'c vec3"
  | CIRCLE "'c vec3" 'c
  | ARC "'c vec3" 'c 'c 'c
  | POINT "'c vec3"
  | TEXT string

fun dxftype :: "'c entity \<Rightarrow> string" where
  "dxftype (LWPOLYLINE _ _) = ''LWPOLYLINE''"
| "dxftype (POLYLINE _ _) = ''POLYLINE''"
| "dxftype (LINE _ _) = ''LINE''"
| "dxftype (CIRCLE _ _) = ''CIRCLE''"
| "dxftype (ARC _ _ _ _) = ''ARC''"
| "dxftype (POINT _) = ''POINT''"
| "dxftype (TEXT _) = ''TEXT''"

text \<open>\<open>msp.query(name)\<close>: the entities of that type, in modelspace order.\<close>

definition query :: "string \<Rightarrow> 'c entity list \<Rightarrow> 'c entity list" where
  "query name msp = filter (\<lambda>e. dxftype e = name) msp"

section \<open>Line-segment extraction\<close>

subsection \<open>\<open>get_line_segments_from_dxf\<close> (modules/geometry\_processing.py)\<close>

text \<open>
  Lines 76--86.  The \<open>for i in range(len(points) - 1)\<close> loop appends one segment
  per index; the closing segment runs from \<open>points[-1]\<close> to \<open>points[0]\<close>.
\<close>

definition lwpolyline_segments ::
  "'c lwpoint list \<Rightarrow> bool \<Rightarrow> 'c segment list \<Rightarrow> 'c segment list" where
  "lwpolyline_segments points is_closed line_segments =
     (if length points \<ge> 2 then
        let ls = fold (\<lambda>i acc. acc @ [[[lw0 (points ! i), lw1 (points ! i)],
                                         [lw0 (points ! (i + 1)), lw1 (points ! (i + 1))]]])
                   [0 ..< length points - 1] line_segments
        in if is_closed \<and> length points > 2
           then ls @ [[[lw0 (last points), lw1 (last points)],
                       [lw0 (points ! 0), lw1 (points ! 0)]]]
           else ls
      else line_segments)"

fun lwpolyline_step :: "'c entity \<Rightarrow> 'c segment list \<Rightarrow> 'c segment list" where
  "lwpolyline_step (LWPOLYLINE points is_closed) line_segments =
     lwpolyline_segments points is_closed line_segments"
| "lwpolyline_step _ line_segments = line_segments"

text \<open>
  Lines 89--92: an item is collected, as an \<open>(x, y)\<close> tuple, when
  \<open>hasattr(vertex, 'dxf') and hasattr(vertex.dxf, 'location')\<close> holds, that is
  when \<open>vertex.dxf.location\<close> can be read; the others are skipped.
\<close>

definition collect_polyline_points :: "'c vec3 list \<Rightarrow> 'c point list" where
  "collect_polyline_points vertices =
     fold (\<lambda>vertex current_polyline_points.
             case dxf_location vertex of
               Inr loc \<Rightarrow> current_polyline_points @ [[v0 loc, v1 loc]]
             | Inl e \<Rightarrow> current_polyline_points)
          vertices []"

text \<open>Lines 93--101, on the collected points.\<close>

definition polyline_segments ::
  "'c point list \<Rightarrow> bool \<Rightarrow> 'c segment list \<Rightarrow> 'c segment list" where
  "polyline_segments cpp is_closed line_segments =
     (if length cpp \<ge> 2 then
        let ls = fold (\<lambda>i acc. acc @ [[[cpp ! i ! 0, cpp ! i ! 1],
                                         [cpp ! (i + 1) ! 0, cpp ! (i + 1) ! 1]]])
                   [0 ..< length cpp - 1] line_segments
        in if is_closed \<and> length cpp > 2
           then ls @ [[[last cpp ! 0, last cpp ! 1], [cpp ! 0 ! 0, cpp ! 0 ! 1]]]
           else ls
      else line_segments)"

fun polyline_step :: "'c entity \<Rightarrow> 'c segment list \<Rightarrow> 'c segment list" where
  "polyline_step (POLYLINE vertices is_closed) line_segments =
     polyline_segments (collect_polyline_points vertices) is_closed line_segments"
| "polyline_step _ line_segments = line_segments"

text \<open>Lines 103--106.\<close>

fun line_step :: "'c entity \<Rightarrow> 'c segment list \<Rightarrow> 'c segment list" where
  "line_step (LINE start end) line_segments =
     line_segments @ [[[v0 start, v1 start], [v0 end, v1 end]]]"
| "line_step _ line_segments = line_segments"

text \<open>Lines 75--107: the three loops over the modelspace, in this order.\<close>

definition extract_line_segments :: "'c entity list \<Rightarrow> 'c segment list" where
  "extract_line_segments msp =
     fold line_step (query ''LINE'' msp)
       (fold polyline_step (query ''POLYLINE'' msp)
          (fold lwpolyline_step (query ''LWPOLYLINE'' msp) []))"

subsection \<open>Files, messages and the outcome of a call\<close>

text \<open>
  A new ezdxf document is described by the entities the code adds to its
  modelspace, in order, with the arguments the code passes.
\<close>

datatype 'c msp_call =
    Add_lwpolyline "'c point list" bool
  | Add_line "'c point" "'c point"
  | Add_circle "'c point" rat

datatype 'c geom =
    ContourGeometry "'c point list"
  | HatchGeometry "'c point list"
  | PointsGeometry "'c point list"

datatype 'c layer = Layer int "'c geom list"

fun layer_geometry :: "'c layer \<Rightarrow> 'c geom list" where
  "layer_geometry (Layer z geometry) = geometry"

text \<open>What a call does to the outside, in the order it does it.\<close>

datatype 'c event =
    Print string
  | LogError string
  | Mkdir path
  | Mkdir_parent path
  | Makedirs path
  | WriteFile path string
  | SaveAs path "'c msp_call list"
  | PlotLayers "'c layer list"

text \<open>
  The file system and the DXF reader, as the scripts observe them:
  \<open>readfile\<close> is \<open>ezdxf.readfile(p)\<close> followed by \<open>doc.modelspace()\<close>,
  \<open>listdir\<close> is \<open>os.listdir\<close>; the \<open>_raises\<close> fields say whether
  \<open>p.mkdir(parents=True, exist_ok=True)\<close>, the same on \<open>p.parent\<close>,
  \<open>os.makedirs(p)\<close>, \<open>open(p, 'w')\<close> and \<open>doc.saveas(p)\<close> raise.
\<close>

record 'c os_env =
  path_exists :: "path \<Rightarrow> bool"
  readfile :: "path \<Rightarrow> exn + 'c entity list"
  listdir :: "path \<Rightarrow> exn + string list"
  mkdir_raises :: "path \<Rightarrow> exn option"
  mkdir_parent_raises :: "path \<Rightarrow> exn option"
  makedirs_raises :: "path \<Rightarrow> exn option"
  open_raises :: "path \<Rightarrow> exn option"
  saveas_raises :: "path \<Rightarrow> exn option"

text \<open>
  A call yields its events and either the exception that leaves it (\<open>Inl\<close>)
  or its return value (\<open>Inr\<close>).
\<close>

type_synonym ('c, 'a) outcome = "'c event list \<times> (exn + 'a)"

text \<open>Lines 60--107 of modules/geometry\_processing.py.\<close>

definition get_line_segments_from_dxf ::
  "'c os_env \<Rightarrow> path \<Rightarrow> ('c, 'c segment list) outcome" where
  "get_line_segments_from_dxf env dxf_path =
     (case readfile env dxf_path of
        Inl e \<Rightarrow>
          if is_DXFStructureError e then
            ([LogError (''Invalid DXF structure for '' @ quoted dxf_path @ ''. Skipping.'')],
             Inr [])
          else if is_Exception e then
            ([LogError (''Unexpected error reading '' @ quoted dxf_path @ '': '' @ str_exn e
                        @ ''. Skipping.'')],
             Inr [])
          else ([], Inl e)
      | Inr msp \<Rightarrow> ([], Inr (extract_line_segments msp)))"

subsection \<open>The extraction loop of \<open>convert_dxf_to_lines_only_machine_format\<close>\<close>

text \<open>
  Lines 145--155 of modules/geometry\_processing.py.  The closing segment starts
  at \<open>(points[-1][0], points[0][1])\<close>.
\<close>

definition lwpolyline_segments_mf ::
  "'c lwpoint list \<Rightarrow> bool \<Rightarrow> 'c segment list \<Rightarrow> 'c segment list" where
  "lwpolyline_segments_mf points is_closed all_line_segments =
     (if length points \<ge> 2 then
        let ls = fold (\<lambda>i acc. acc @ [[[lw0 (points ! i), lw1 (points ! i)],
                                         [lw0 (points ! (i + 1)), lw1 (points ! (i + 1))]]])
                   [0 ..< length points - 1] all_line_segments
        in if is_closed \<and> length points > 2
           then ls @ [[[lw0 (last points), lw1 (points ! 0)],
                       [lw0 (points ! 0), lw1 (points ! 0)]]]
           else ls
      else all_line_segments)"

fun lwpolyline_step_mf :: "'c entity \<Rightarrow> 'c segment list \<Rightarrow> 'c segment list" where
  "lwpolyline_step_mf (LWPOLYLINE points is_closed) all_line_segments =
     lwpolyline_segments_mf points is_closed all_line_segments"
| "lwpolyline_step_mf _ all_line_segments = all_line_segments"

text \<open>
  Lines 144--175: the POLYLINE and LINE loops are the text of lines 88--106.
\<close>

definition extract_machine_format :: "'c entity list \<Rightarrow> 'c segment list" where
  "extract_machine_format msp =
     fold line_step (query ''LINE'' msp)
       (fold polyline_step (query ''POLYLINE'' msp)
          (fold lwpolyline_step_mf (query ''LWPOLYLINE'' msp) []))"

text \<open>
  unified\_pyslm\_pipeline.py, lines 210--241: the same function again, with the
  same closing segment at its line 218.
\<close>

definition up_lwpolyline_segments_mf ::
  "'c lwpoint list \<Rightarrow> bool \<Rightarrow> 'c segment list \<Rightarrow> 'c segment list" where
  "up_lwpolyline_segments_mf points is_closed all_line_segments =
     (if length points \<ge> 2 then
        let ls = fold (\<lambda>i acc. acc @ [[[lw0 (points ! i), lw1 (points ! i)],
                                         [lw0 (points ! (i + 1)), lw1 (points ! (i + 1))]]])
                   [0 ..< length points - 1] all_line_segments
        in if is_closed \<and> length points > 2
           then ls @ [[[lw0 (last points), lw1 (points ! 0)],
                       [lw0 (points ! 0), lw1 (points ! 0)]]]
           else ls
      else all_line_segments)"

fun up_lwpolyline_step_mf :: "'c entity \<Rightarrow> 'c segment list \<Rightarrow> 'c segment list" where
  "up_lwpolyline_step_mf (LWPOLYLINE points is_closed) all_line_segments =
     up_lwpolyline_segments_mf points is_closed all_line_segments"
| "up_lwpolyline_step_mf _ all_line_segments = all_line_segments"

definition up_extract_machine_format :: "'c entity list \<Rightarrow> 'c segment list" where
  "up_extract_machine_format msp =
     fold line_step (query ''LINE'' msp)
       (fold polyline_step (query ''POLYLINE'' msp)
          (fold up_lwpolyline_step_mf (query ''LWPOLYLINE'' msp) []))"

text \<open>
  support\_DXF\_to\_machine\_TXT\_or\_DXF.py, lines 51--93
  (\<open>convert_dxf_to_lines_only\<close>): the three loops are the text of
  \<open>get_line_segments_from_dxf\<close>, closing segment from \<open>points[-1]\<close> included.
\<close>

definition extract_lines_only :: "'c entity list \<Rightarrow> 'c segment list" where
  "extract_lines_only msp =
     fold line_step (query ''LINE'' msp)
       (fold polyline_step (query ''POLYLINE'' msp)
          (fold lwpolyline_step (query ''LWPOLYLINE'' msp) []))"

section \<open>The machine-format writer\<close>

subsection \<open>modules/geometry\_processing.py, lines 177--187\<close>

text \<open>
  The file under construction is the text written so far; \<open>f.write(s)\<close>
  appends.  \<open>fmt3\<close> is the format specification \<open>:.3f\<close> of the f-string,
  a Python built-in.  An exception inside the \<open>with\<close> block leaves the text
  written before it in the file.
\<close>

definition line_record :: "('c \<Rightarrow> string) \<Rightarrow> 'c \<Rightarrow> 'c \<Rightarrow> 'c \<Rightarrow> 'c \<Rightarrow> string" where
  "line_record fmt3 start_x start_y end_x end_y =
     ''0'' @ NL @ ''LINE'' @ NL @ ''8'' @ NL @ ''0'' @ NL @ ''10'' @ NL @ fmt3 start_x @ NL
     @ ''20'' @ NL @ fmt3 start_y @ NL @ ''11'' @ NL @ fmt3 end_x @ NL
     @ ''21'' @ NL @ fmt3 end_y @ NL @ ''0'' @ NL"

text \<open>
  \<open>start_x, start_y = segment[0]\<close> and \<open>end_x, end_y = segment[1]\<close>, in this
  order.
\<close>

definition segment_coords :: "'c segment \<Rightarrow> exn + ('c \<times> 'c \<times> 'c \<times> 'c)" where
  "segment_coords segment =
     (case subscript segment 0 of
        Inl e \<Rightarrow> Inl e
      | Inr p0 \<Rightarrow>
          (case unpack2 p0 of
             Inl e \<Rightarrow> Inl e
           | Inr (start_x, start_y) \<Rightarrow>
               (case subscript segment 1 of
                  Inl e \<Rightarrow> Inl e
                | Inr p1 \<Rightarrow>
                    (case unpack2 p1 of
                       Inl e \<Rightarrow> Inl e
                     | Inr (end_x, end_y) \<Rightarrow> Inr (start_x, start_y, end_x, end_y)))))"

fun write_segments ::
  "('c \<Rightarrow> string) \<Rightarrow> 'c segment list \<Rightarrow> string \<Rightarrow> string \<times> exn option" where
  "write_segments fmt3 [] f = (f, None)"
| "write_segments fmt3 (segment # rest) f =
     (case segment_coords segment of
        Inl e \<Rightarrow> (f, Some e)
      | Inr (start_x, start_y, end_x, end_y) \<Rightarrow>
          write_segments fmt3 rest (f @ line_record fmt3 start_x start_y end_x end_y))"

definition write_machine_format ::
  "('c \<Rightarrow> string) \<Rightarrow> 'c segment list \<Rightarrow> string \<times> exn option" where
  "write_machine_format fmt3 all_line_segments =
     (case write_segments fmt3 all_line_segments
             (''0'' @ NL @ ''SECTION'' @ NL @ ''2'' @ NL @ ''ENTITIES'' @ NL) of
        (f, None) \<Rightarrow> (f @ ''0'' @ NL @ ''ENDSEC'' @ NL @ ''0'' @ NL @ ''EOF'' @ NL, None)
      | (f, Some e) \<Rightarrow> (f, Some e))"

text \<open>Lines 126--187: the whole converter.\<close>

definition convert_dxf_to_lines_only_machine_format ::
  "'c os_env \<Rightarrow> ('c \<Rightarrow> string) \<Rightarrow> path \<Rightarrow> path \<Rightarrow> ('c, unit) outcome" where
  "convert_dxf_to_lines_only_machine_format env fmt3 input_dxf_path output_target_path =
     (if \<not> path_exists env input_dxf_path then
        ([Print (''Error: Input DXF file not found at '' @ quoted input_dxf_path)], Inr ())
      else
        (case readfile env input_dxf_path of
          Inl e \<Rightarrow>
            (if is_DXFStructureError e then
              ([Print (''Error: Invalid DXF file structure for '' @ quoted input_dxf_path
                       @ ''. Skipping.'')], Inr ())
            else if is_Exception e then
              ([Print (''An unexpected error occurred reading '' @ quoted input_dxf_path
                       @ '': '' @ str_exn e @ ''. Skipping.'')], Inr ())
            else ([], Inl e))
        | Inr msp \<Rightarrow>
           (let all_line_segments = extract_machine_format msp in
            (case mkdir_parent_raises env output_target_path of
              Some e \<Rightarrow> ([], Inl e)
            | None \<Rightarrow>
                (case open_raises env output_target_path of
                   Some e \<Rightarrow>
                     if is_Exception e then
                       ([Mkdir_parent output_target_path,
                         Print (''Error writing to '' @ quoted output_target_path @ '': ''
                                @ str_exn e)], Inr ())
                     else ([Mkdir_parent output_target_path], Inl e)
                 | None \<Rightarrow>
                     (case write_machine_format fmt3 all_line_segments of
                        (f, None) \<Rightarrow>
                          ([Mkdir_parent output_target_path, WriteFile output_target_path f],
                           Inr ())
                      | (f, Some e) \<Rightarrow>
                          if is_Exception e then
                            ([Mkdir_parent output_target_path, WriteFile output_target_path f,
                              Print (''Error writing to '' @ quoted output_target_path @ '': ''
                                     @ str_exn e)], Inr ())
                          else
                            ([Mkdir_parent output_target_path, WriteFile output_target_path f],
                             Inl e)))))))"

subsection \<open>support\_DXF\_to\_machine\_TXT\_or\_DXF.py, lines 101--141\<close>

text \<open>The same text, written by one \<open>f.write\<close> per line.\<close>

definition writes :: "string \<Rightarrow> string list \<Rightarrow> string" where
  "writes f chunks = foldl (@) f chunks"

fun write_segments_lo ::
  "('c \<Rightarrow> string) \<Rightarrow> 'c segment list \<Rightarrow> string \<Rightarrow> string \<times> exn option" where
  "write_segments_lo fmt3 [] f = (f, None)"
| "write_segments_lo fmt3 (segment # rest) f =
     (case segment_coords segment of
        Inl e \<Rightarrow> (f, Some e)
      | Inr (start_x, start_y, end_x, end_y) \<Rightarrow>
          write_segments_lo fmt3 rest
            (writes f [''0'' @ NL, ''LINE'' @ NL, ''8'' @ NL, ''0'' @ NL,
                       ''10'' @ NL, fmt3 start_x @ NL, ''20'' @ NL, fmt3 start_y @ NL,
                       ''11'' @ NL, fmt3 end_x @ NL, ''21'' @ NL, fmt3 end_y @ NL,
                       ''0'' @ NL]))"

definition write_lines_only ::
  "('c \<Rightarrow> string) \<Rightarrow> 'c segment list \<Rightarrow> string \<times> exn option" where
  "write_lines_only fmt3 all_line_segments =
     (case write_segments_lo fmt3 all_line_segments
             (writes [] [''0'' @ NL, ''SECTION'' @ NL, ''2'' @ NL, ''ENTITIES'' @ NL]) of
        (f, None) \<Rightarrow> (writes f [''0'' @ NL, ''ENDSEC'' @ NL, ''0'' @ NL, ''EOF'' @ NL], None)
      | (f, Some e) \<Rightarrow> (f, Some e))"

text \<open>
  \<open>os.path.dirname\<close> and \<open>os.path.basename\<close> (posixpath): the path is cut
  after its last slash; the head loses its trailing slashes unless it consists
  of slashes only.
\<close>

definition basename :: "path \<Rightarrow> string" where
  "basename p = rev (takeWhile (\<lambda>c. c \<noteq> CHR ''/'') (rev p))"

definition dirname :: "path \<Rightarrow> path" where
  "dirname p =
     (let head = rev (dropWhile (\<lambda>c. c \<noteq> CHR ''/'') (rev p))
      in if head \<noteq> [] \<and> \<not> list_all (\<lambda>c. c = CHR ''/'') head
         then rev (dropWhile (\<lambda>c. c = CHR ''/'') (rev head))
         else head)"

text \<open>
  Lines 23--141.  The messages are the Portuguese texts of the source, in
  UTF-8.
\<close>

definition convert_dxf_to_lines_only ::
  "'c os_env \<Rightarrow> ('c \<Rightarrow> string) \<Rightarrow> path \<Rightarrow> path \<Rightarrow> string \<Rightarrow> ('c, unit) outcome" where
  "convert_dxf_to_lines_only env fmt3 input_dxf_path output_target_path output_extension =
     (if \<not> path_exists env input_dxf_path then
        ([Print (''Erro: Arquivo DXF de entrada n'' @ [CHR 0xC3, CHR 0xA3] @ ''o encontrado em ''
                 @ quoted input_dxf_path)], Inr ())
      else
        (case readfile env input_dxf_path of
          Inl e \<Rightarrow>
            (if is_DXFStructureError e then
              ([Print (''Erro: Estrutura de arquivo DXF inv'' @ [CHR 0xC3, CHR 0xA1]
                       @ ''lida para '' @ quoted input_dxf_path @ ''. Pulando.'')], Inr ())
            else if is_Exception e then
              ([Print (''Ocorreu um erro inesperado ao ler '' @ quoted input_dxf_path
                       @ '': '' @ str_exn e @ ''. Pulando.'')], Inr ())
            else ([], Inl e))
        | Inr msp \<Rightarrow>
           (let all_line_segments = extract_lines_only msp;
                output_dir = dirname output_target_path;
                make = (output_dir \<noteq> [] \<and> \<not> path_exists env output_dir)
            in
            (case (if make then makedirs_raises env output_dir else None) of
              Some e \<Rightarrow> ([], Inl e)
            | None \<Rightarrow>
                let made = (if make then [Makedirs output_dir] else []) in
                (case open_raises env output_target_path of
                   Some e \<Rightarrow>
                     if is_Exception e then
                       (made @ [Print (''Erro ao escrever em '' @ quoted output_target_path
                                       @ '': '' @ str_exn e)], Inr ())
                     else (made, Inl e)
                 | None \<Rightarrow>
                     (case write_lines_only fmt3 all_line_segments of
                        (f, None) \<Rightarrow> (made @ [WriteFile output_target_path f], Inr ())
                      | (f, Some e) \<Rightarrow>
                          if is_Exception e then
                            (made @ [WriteFile output_target_path f,
                                     Print (''Erro ao escrever em '' @ quoted output_target_path
                                            @ '': '' @ str_exn e)], Inr ())
                          else (made @ [WriteFile output_target_path f], Inl e)))))))"

section \<open>\<open>get_dxf_line_segments\<close> (manufacture\_parameters.py, lines 10--48)\<close>

text \<open>
  The whole body is inside one \<open>try\<close>; \<open>except Exception: pass\<close> then returns
  the segments appended so far.  The LINE loop comes first, the LWPOLYLINE loop
  has no test on the number of points, and the POLYLINE loop reads
  \<open>vertex.dxf.location\<close> without testing for it: on the first item of a
  POLYLINE that has vertices this raises \<open>AttributeError\<close>, which ends the
  \<open>try\<close> block.
\<close>

definition lwpolyline_segments_mp ::
  "'c lwpoint list \<Rightarrow> bool \<Rightarrow> 'c segment list \<Rightarrow> 'c segment list" where
  "lwpolyline_segments_mp points is_closed segments =
     (let ls = fold (\<lambda>i acc. acc @ [[[lw0 (points ! i), lw1 (points ! i)],
                                       [lw0 (points ! (i + 1)), lw1 (points ! (i + 1))]]])
                 [0 ..< length points - 1] segments
      in if is_closed \<and> length points > 2
         then ls @ [[[lw0 (last points), lw1 (last points)],
                     [lw0 (points ! 0), lw1 (points ! 0)]]]
         else ls)"

fun lwpolyline_step_mp :: "'c entity \<Rightarrow> 'c segment list \<Rightarrow> 'c segment list" where
  "lwpolyline_step_mp (LWPOLYLINE points is_closed) segments =
     lwpolyline_segments_mp points is_closed segments"
| "lwpolyline_step_mp _ segments = segments"

fun vertex_locations :: "'c vec3 list \<Rightarrow> 'c point list \<Rightarrow> exn + 'c point list" where
  "vertex_locations [] current_polyline_points = Inr current_polyline_points"
| "vertex_locations (vertex # rest) current_polyline_points =
     (case dxf_location vertex of
        Inl e \<Rightarrow> Inl e
      | Inr loc \<Rightarrow> vertex_locations rest (current_polyline_points @ [[v0 loc, v1 loc]]))"

fun polyline_loop_mp ::
  "'c entity list \<Rightarrow> 'c segment list \<Rightarrow> 'c segment list \<times> exn option" where
  "polyline_loop_mp [] segments = (segments, None)"
| "polyline_loop_mp (POLYLINE vertices is_closed # rest) segments =
     (case vertex_locations vertices [] of
        Inl e \<Rightarrow> (segments, Some e)
      | Inr current_polyline_points \<Rightarrow>
          polyline_loop_mp rest (polyline_segments current_polyline_points is_closed segments))"
| "polyline_loop_mp (_ # rest) segments = polyline_loop_mp rest segments"

definition get_dxf_line_segments :: "'c os_env \<Rightarrow> path \<Rightarrow> exn + 'c segment list" where
  "get_dxf_line_segments env dxf_path =
     (case readfile env dxf_path of
        Inl e \<Rightarrow> (if is_Exception e then Inr [] else Inl e)
      | Inr msp \<Rightarrow>
          (case polyline_loop_mp (query ''POLYLINE'' msp)
                  (fold lwpolyline_step_mp (query ''LWPOLYLINE'' msp)
                     (fold line_step (query ''LINE'' msp) [])) of
             (segments, None) \<Rightarrow> Inr segments
           | (segments, Some e) \<Rightarrow> (if is_Exception e then Inr segments else Inl e)))"

section \<open>\<open>create_simplified_dxf_for_laser\<close> (modules/geometry\_processing.py, lines 109--124)\<close>

text \<open>
  \<open>round6\<close> is the built-in \<open>round(x, 6)\<close>.  The document is new, so its
  modelspace holds what the loop adds.  Subscription is outside any \<open>try\<close>.
\<close>

definition rounded_line :: "('c \<Rightarrow> 'c) \<Rightarrow> 'c segment \<Rightarrow> exn + 'c msp_call" where
  "rounded_line round6 segment =
     (case subscript segment 0 of
        Inl e \<Rightarrow> Inl e
      | Inr start_point \<Rightarrow>
          (case subscript segment 1 of
             Inl e \<Rightarrow> Inl e
           | Inr end_point \<Rightarrow>
               (case subscript start_point 0 of
                  Inl e \<Rightarrow> Inl e
                | Inr sx \<Rightarrow>
                    (case subscript start_point 1 of
                       Inl e \<Rightarrow> Inl e
                     | Inr sy \<Rightarrow>
                         (case subscript end_point 0 of
                            Inl e \<Rightarrow> Inl e
                          | Inr ex \<Rightarrow>
                              (case subscript end_point 1 of
                                 Inl e \<Rightarrow> Inl e
                               | Inr ey \<Rightarrow>
                                   Inr (Add_line [round6 sx, round6 sy]
                                                 [round6 ex, round6 ey])))))))"

fun add_rounded_lines ::
  "('c \<Rightarrow> 'c) \<Rightarrow> 'c segment list \<Rightarrow> 'c msp_call list \<Rightarrow> exn + 'c msp_call list" where
  "add_rounded_lines round6 [] msp = Inr msp"
| "add_rounded_lines round6 (segment # rest) msp =
     (case rounded_line round6 segment of
        Inl e \<Rightarrow> Inl e
      | Inr l \<Rightarrow> add_rounded_lines round6 rest (msp @ [l]))"

definition create_simplified_dxf_for_laser ::
  "'c os_env \<Rightarrow> ('c \<Rightarrow> 'c) \<Rightarrow> 'c segment list \<Rightarrow> path \<Rightarrow> ('c, unit) outcome" where
  "create_simplified_dxf_for_laser env round6 line_segments output_dxf_path =
     (case add_rounded_lines round6 line_segments [] of
        Inl e \<Rightarrow> ([], Inl e)
      | Inr msp \<Rightarrow>
          (case saveas_raises env output_dxf_path of
             None \<Rightarrow> ([SaveAs output_dxf_path msp], Inr ())
           | Some e \<Rightarrow>
               (if is_Exception e then
                  ([Print (''Error saving simplified DXF '' @ output_dxf_path @ '': ''
                           @ str_exn e)], Inr ())
                else ([], Inl e))))"

section \<open>\<open>export_layer_to_dxf\<close> (modules/geometry\_processing.py, lines 36--58)\<close>

text \<open>
  \<open>layer.getContourGeometry()\<close>, \<open>getHatchGeometry()\<close> and
  \<open>getPointsGeometry()\<close> select the geometries of one kind, in layer order.
\<close>

definition getContourGeometry :: "'c layer \<Rightarrow> 'c point list list" where
  "getContourGeometry layer =
     concat (map (\<lambda>g. case g of ContourGeometry coords \<Rightarrow> [coords] | _ \<Rightarrow> [])
                 (layer_geometry layer))"

definition getHatchGeometry :: "'c layer \<Rightarrow> 'c point list list" where
  "getHatchGeometry layer =
     concat (map (\<lambda>g. case g of HatchGeometry coords \<Rightarrow> [coords] | _ \<Rightarrow> [])
                 (layer_geometry layer))"

definition getPointsGeometry :: "'c layer \<Rightarrow> 'c point list list" where
  "getPointsGeometry layer =
     concat (map (\<lambda>g. case g of PointsGeometry coords \<Rightarrow> [coords] | _ \<Rightarrow> [])
                 (layer_geometry layer))"

text \<open>\<open>range(0, n, 2)\<close>.\<close>

definition range2 :: "nat \<Rightarrow> nat list" where
  "range2 n = map (\<lambda>k. 2 * k) [0 ..< (n + 1) div 2]"

text \<open>
  Lines 50--52: \<open>start, end = map(tuple, coords[i:i+2])\<close> unpacks the slice,
  which holds one row when \<open>i\<close> is the last index.
\<close>

fun hatch_lines ::
  "'c point list \<Rightarrow> nat list \<Rightarrow> 'c msp_call list \<Rightarrow> exn + 'c msp_call list" where
  "hatch_lines coords [] msp = Inr msp"
| "hatch_lines coords (i # rest) msp =
     (case unpack2 (take 2 (drop i coords)) of
        Inl e \<Rightarrow> Inl e
      | Inr (start, end) \<Rightarrow> hatch_lines coords rest (msp @ [Add_line start end]))"

fun hatch_geometries ::
  "'c point list list \<Rightarrow> 'c msp_call list \<Rightarrow> exn + 'c msp_call list" where
  "hatch_geometries [] msp = Inr msp"
| "hatch_geometries (coords # rest) msp =
     (case hatch_lines coords (range2 (length coords)) msp of
        Inl e \<Rightarrow> Inl e
      | Inr msp' \<Rightarrow> hatch_geometries rest msp')"

definition export_layer_to_dxf :: "'c os_env \<Rightarrow> 'c layer \<Rightarrow> path \<Rightarrow> ('c, unit) outcome" where
  "export_layer_to_dxf env layer path =
     (let msp1 = map (\<lambda>coords. Add_lwpolyline coords True) (getContourGeometry layer) in
      (case hatch_geometries (getHatchGeometry layer) msp1 of
         Inl e \<Rightarrow> ([], Inl e)
       | Inr msp2 \<Rightarrow>
           (let msp3 = msp2 @ concat (map (map (\<lambda>p. Add_circle p (2 / 100)))
                                          (getPointsGeometry layer))
            in (case saveas_raises env path of
                  Some e \<Rightarrow> ([], Inl e)
                | None \<Rightarrow> ([SaveAs path msp3], Inr ())))))"

section \<open>The manufacturing-parameters file\<close>

subsection \<open>Values and their text\<close>

text \<open>
  The values of the parameter table are strings, integers and floats.
  \<open>f"{value}"\<close> is \<open>str(value)\<close>; on a float that is a Python built-in,
  taken as the parameter \<open>str_float\<close>.
\<close>

datatype pyval = PStr string | PInt int | PFloat rat

function str_nat :: "nat \<Rightarrow> string" where
  "str_nat n = (if n < 10 then [char_of (48 + n)]
                else str_nat (n div 10) @ [char_of (48 + n mod 10)])"
  by pat_completeness auto
termination
  by (relation "measure (\<lambda>n. n)") auto

definition str_int :: "int \<Rightarrow> string" where
  "str_int i = (if i < 0 then ''-'' @ str_nat (nat (- i)) else str_nat (nat i))"

fun str_value :: "(rat \<Rightarrow> string) \<Rightarrow> pyval \<Rightarrow> string" where
  "str_value str_float (PStr s) = s"
| "str_value str_float (PInt i) = str_int i"
| "str_value str_float (PFloat r) = str_float r"

text \<open>\<open>str.lower\<close> on the ASCII letters, and \<open>str.endswith\<close>.\<close>

definition lower_char :: "char \<Rightarrow> char" where
  "lower_char c = (let n = (of_char c :: nat) in if 65 \<le> n \<and> n \<le> 90 then char_of (n + 32) else c)"

definition lower :: "string \<Rightarrow> string" where
  "lower s = map lower_char s"

definition endswith :: "string \<Rightarrow> string \<Rightarrow> bool" where
  "endswith s suffix =
     (length suffix \<le> length s \<and> drop (length s - length suffix) s = suffix)"

text \<open>
  \<open>sorted([f for f in os.listdir(folder) if f.lower().endswith(('.dxf', '.txt'))])\<close>
\<close>

definition is_layer_file :: "string \<Rightarrow> bool" where
  "is_layer_file f = (endswith (lower f) ''.dxf'' \<or> endswith (lower f) ''.txt'')"

definition layer_files :: "string list \<Rightarrow> string list" where
  "layer_files names = sort (filter is_layer_file names)"

text \<open>
  \<open>folder / name\<close> of pathlib, for a relative name and a folder other than
  \<open>.\<close>: pathlib drops the folder \<open>.\<close>, and an absolute name replaces the
  folder.
\<close>

definition path_join :: "path \<Rightarrow> string \<Rightarrow> path" where
  "path_join folder name = folder @ ''/'' @ name"

text \<open>
  The loop \<open>for key, value in final_parameters.items()\<close> with its two
  \<open>f.write\<close> calls.  A dict is the list of its items in insertion order.
\<close>

definition write_parameters :: "(rat \<Rightarrow> string) \<Rightarrow> (string \<times> pyval) list \<Rightarrow> string" where
  "write_parameters str_float final_parameters =
     fold (\<lambda>(key, value) f. writes f [''['' @ key @ '']'' @ NL, str_value str_float value @ NL])
          final_parameters []"

subsection \<open>\<open>generate_manufacturing_parameters_file\<close>
  (modules/geometry\_processing.py, lines 189--251)\<close>

definition final_parameters_of :: "string \<Rightarrow> int \<Rightarrow> rat \<Rightarrow> (string \<times> pyval) list" where
  "final_parameters_of part_name number_of_layers layer_thickness =
     [(''PART NAME'', PStr part_name),
      (''MINX'', PFloat (- (79 / 10))),
      (''MAXX'', PFloat (79 / 10)),
      (''MINY'', PFloat (- (79 / 10))),
      (''MAXY'', PFloat (79 / 10)),
      (''NUMBER OF LAYERS'', PInt number_of_layers),
      (''LAYER THICKNESS'', PFloat layer_thickness),
      (''HATCH POWER 1'', PInt 40),
      (''HATCH SPEED 1'', PInt 170),
      (''VBPP1'', PInt 1),
      (''MAGNIFICATION 1'', PFloat 1),
      (''HATCH POWER 2'', PInt 42),
      (''HATCH SPEED 2'', PInt 1202),
      (''VBPP2'', PInt 2),
      (''MAGNIFICATION 2'', PFloat 1),
      (''HATCH POWER 3'', PInt 43),
      (''HATCH SPEED 3'', PInt 1203),
      (''VBPP3'', PInt 3),
      (''MAGNIFICATION 3'', PFloat 1),
      (''NUMBER OF PASSES'', PInt 1),
      (''CONTOUR POWER'', PInt 11),
      (''CONTOUR SPEED'', PInt 1001)]"

definition generate_manufacturing_parameters_file ::
  "'c os_env \<Rightarrow> (rat \<Rightarrow> string) \<Rightarrow> path \<Rightarrow> path \<Rightarrow> string \<Rightarrow> rat \<Rightarrow> ('c, unit) outcome" where
  "generate_manufacturing_parameters_file env str_float input_dxf_folder output_folder
       part_name layer_thickness =
     (if \<not> path_exists env input_dxf_folder then
        ([Print (''Error: Input DXF folder not found at '' @ quoted input_dxf_folder
                 @ ''. Cannot generate parameters file.'')], Inr ())
      else
        (case listdir env input_dxf_folder of
           Inl e \<Rightarrow> ([], Inl e)
         | Inr names \<Rightarrow>
            (let dxf_files = layer_files names in
             if dxf_files = [] then
               ([Print (''No DXF or TXT files found in '' @ quoted input_dxf_folder
                        @ ''. Cannot generate parameters file.'')], Inr ())
             else
               (let number_of_layers = int (length dxf_files);
                    final_parameters =
                      final_parameters_of part_name number_of_layers layer_thickness;
                    output_file_path =
                      path_join output_folder (part_name @ ''_auto_machine_parameters.txt'')
                in
                (case mkdir_raises env output_folder of
                   Some e \<Rightarrow> ([], Inl e)
                 | None \<Rightarrow>
                     (case open_raises env output_file_path of
                        Some e \<Rightarrow>
                          (if is_Exception e then
                             ([Mkdir output_folder,
                               Print (''Error generating the file '' @ quoted output_file_path
                                      @ '': '' @ str_exn e)], Inr ())
                           else ([Mkdir output_folder], Inl e))
                      | None \<Rightarrow>
                          ([Mkdir output_folder,
                            WriteFile output_file_path
                              (write_parameters str_float final_parameters),
                            Print (NL @ ''Successfully generated manufacturing parameters file: ''
                                   @ output_file_path)], Inr ())))))))"

subsection \<open>\<open>generate_auto_parameters_file\<close> (manufacture\_parameters.py, lines 50--155)\<close>

text \<open>\<open>os.path.join(folder, name)\<close> (posixpath).\<close>

definition os_path_join :: "path \<Rightarrow> string \<Rightarrow> path" where
  "os_path_join a b =
     (if b \<noteq> [] \<and> hd b = CHR ''/'' then b
      else if a = [] \<or> last a = CHR ''/'' then a @ b
      else a @ ''/'' @ b)"

text \<open>
  Lines 92--100: every layer file is read and its segments are dropped; the
  accumulation of the bounding box is commented out.  Only an exception that
  \<open>get_dxf_line_segments\<close> lets through ends the loop.
\<close>

fun analyze_layers :: "'c os_env \<Rightarrow> path \<Rightarrow> string list \<Rightarrow> exn option" where
  "analyze_layers env input_dxf_folder [] = None"
| "analyze_layers env input_dxf_folder (filename # rest) =
     (case get_dxf_line_segments env (os_path_join input_dxf_folder filename) of
        Inl e \<Rightarrow> Some e
      | Inr segments \<Rightarrow> analyze_layers env input_dxf_folder rest)"

text \<open>\<open>d[key] = value\<close> on a dict: an existing key keeps its place.\<close>

fun dict_set :: "('k \<times> 'v) list \<Rightarrow> 'k \<Rightarrow> 'v \<Rightarrow> ('k \<times> 'v) list" where
  "dict_set [] key value = [(key, value)]"
| "dict_set ((k, v) # d) key value =
     (if k = key then (k, value) # d else (k, v) # dict_set d key value)"

text \<open>Lines 107--141: the table, with the overrides of \<open>machine_settings\<close>.\<close>

definition auto_final_parameters ::
  "path \<Rightarrow> string option \<Rightarrow> int \<Rightarrow> rat \<Rightarrow> (string \<times> pyval) list option
     \<Rightarrow> (string \<times> pyval) list" where
  "auto_final_parameters input_dxf_folder part_name number_of_layers layer_thickness
       machine_settings =
     (let part_name' = (case part_name of None \<Rightarrow> basename input_dxf_folder | Some n \<Rightarrow> n);
          final_parameters =
            [(''PART NAME'', PStr part_name'),
             (''MINX'', PFloat (- (79 / 10))),
             (''MAXX'', PFloat (79 / 10)),
             (''MINY'', PFloat (- (79 / 10))),
             (''MAXY'', PFloat (79 / 10)),
             (''NUMBER OF LAYERS'', PInt number_of_layers),
             (''LAYER THICKNESS'', PFloat layer_thickness),
             (''HATCH POWER 1'', PInt 40),
             (''HATCH SPEED 1'', PInt 170),
             (''VBPP1'', PInt 1),
             (''MAGNIFICATION 1'', PFloat 1),
             (''HATCH POWER 2'', PInt 42),
             (''HATCH SPEED 2'', PInt 1202),
             (''VBPP2'', PInt 2),
             (''MAGNIFICATION 2'', PFloat 1),
             (''HATCH POWER 3'', PInt 43),
             (''HATCH SPEED 3'', PInt 1203),
             (''VBPP3'', PInt 3),
             (''MAGNIFICATION 3'', PFloat 1),
             (''NUMBER OF PASSES'', PInt 1),
             (''CONTOUR POWER'', PInt 11),
             (''CONTOUR SPEED'', PInt 1001)]
      in case machine_settings of
           None \<Rightarrow> final_parameters
         | Some settings \<Rightarrow>
             (if settings = [] then final_parameters
              else fold (\<lambda>(key, value) d. dict_set d key value) settings final_parameters))"

definition generate_auto_parameters_file ::
  "'c os_env \<Rightarrow> (rat \<Rightarrow> string) \<Rightarrow> path \<Rightarrow> path \<Rightarrow> rat \<Rightarrow> string option
     \<Rightarrow> (string \<times> pyval) list option \<Rightarrow> ('c, unit) outcome" where
  "generate_auto_parameters_file env str_float input_dxf_folder output_file_path
       layer_thickness part_name machine_settings =
     (if \<not> path_exists env input_dxf_folder then
        ([Print (''Error: Input DXF folder not found at '' @ quoted input_dxf_folder)], Inr ())
      else
        (case listdir env input_dxf_folder of
           Inl e \<Rightarrow> ([], Inl e)
         | Inr names \<Rightarrow>
            (let dxf_files = layer_files names in
             if dxf_files = [] then
               ([Print (''No DXF or TXT files found in '' @ quoted input_dxf_folder @ ''.'')],
                Inr ())
             else
               (let number_of_layers = int (length dxf_files);
                    ev1 = [Print (''Analyzing '' @ str_int number_of_layers
                                  @ '' DXF/TXT layers for bounding box...'')]
                in
                (case analyze_layers env input_dxf_folder dxf_files of
                   Some e \<Rightarrow> (ev1, Inl e)
                 | None \<Rightarrow>
                    (let ev2 = ev1 @ [Print (''Warning: No valid geometry found in DXF/TXT files. ''
                                             @ ''Bounding box defaulted to (0,0,0,0).'')];
                         final_parameters =
                           auto_final_parameters input_dxf_folder part_name number_of_layers
                             layer_thickness machine_settings;
                         output_dir = dirname output_file_path;
                         make = (output_dir \<noteq> [] \<and> \<not> path_exists env output_dir)
                     in
                     (case (if make then makedirs_raises env output_dir else None) of
                        Some e \<Rightarrow> (ev2, Inl e)
                      | None \<Rightarrow>
                         (let ev3 = ev2 @ (if make then [Makedirs output_dir] else []) in
                          (case open_raises env output_file_path of
                             Some e \<Rightarrow>
                               (if is_Exception e then
                                  (ev3 @ [Print (''Error generating the file ''
                                                 @ quoted output_file_path @ '': '' @ str_exn e)],
                                   Inr ())
                                else (ev3, Inl e))
                           | None \<Rightarrow>
                               (ev3 @ [WriteFile output_file_path
                                         (write_parameters str_float final_parameters),
                                       Print (NL @ ''Successfully generated manufacturing ''
                                              @ ''parameters file: '' @ output_file_path)],
                                Inr ()))))))))))"

section \<open>\<open>slice_and_export_raw_dxfs\<close> (modules/geometry\_processing.py, lines 253--341)\<close>

text \<open>
  The slicing library (pyslm, trimesh) is outside the repository: what the
  function asks of it is a record of functions.  Heights are rationals.  A
  coordinate array is the list of its rows, on which \<open>reshape(-1, 2)\<close> is the
  identity.  An item that \<open>simplifyBoundaries\<close> returns either has
  \<open>.exterior.coords\<close> or is an array.
\<close>

datatype 'c simplified = Polygon "'c point list" | Coords "'c point list"

record ('c, 'm) slicing =
  part_min_z :: rat
  part_max_z :: rat
  support_bounds_z :: "'m list \<Rightarrow> rat \<times> rat"
  getVectorSlice :: "rat \<Rightarrow> 'c point list list"
  hatch :: "rat \<Rightarrow> 'c point list list \<Rightarrow> 'c geom list"
  support_slice :: "'m list \<Rightarrow> rat \<Rightarrow> 'c point list list \<times> 'c point list list"
  simplifyBoundaries :: "'c point list list \<Rightarrow> 'c simplified list"

text \<open>modules/parameters.py.\<close>

definition LAYER_THICKNESS :: rat where
  "LAYER_THICKNESS = 3 / 100"

definition HATCH_ANGLE_INITIAL :: rat where
  "HATCH_ANGLE_INITIAL = 10"

definition HATCH_ANGLE_INCREMENT :: rat where
  "HATCH_ANGLE_INCREMENT = 667 / 10"

text \<open>\<open>np.arange(start, stop, step)\<close> for a positive step, and \<open>int(x)\<close>.\<close>

definition arange :: "rat \<Rightarrow> rat \<Rightarrow> rat \<Rightarrow> rat list" where
  "arange start stop step =
     map (\<lambda>i. start + of_nat i * step) [0 ..< nat \<lceil>(stop - start) / step\<rceil>]"

definition int_trunc :: "rat \<Rightarrow> int" where
  "int_trunc x = (if 0 \<le> x then \<lfloor>x\<rfloor> else \<lceil>x\<rceil>)"

text \<open>\<open>xs[::k]\<close> for \<open>k \<ge> 1\<close>.\<close>

definition every_nth :: "nat \<Rightarrow> 'a list \<Rightarrow> 'a list" where
  "every_nth k xs = map (\<lambda>i. xs ! (i * k)) [0 ..< (length xs + k - 1) div k]"

text \<open>
  Lines 298--328: the layer built at height \<open>zPos\<close>, the hatch angle being
  already incremented.  \<open>coords.reshape\<close> on an item without that method
  raises.
\<close>

fun support_hatch_geoms :: "'c simplified list \<Rightarrow> exn + 'c geom list" where
  "support_hatch_geoms [] = Inr []"
| "support_hatch_geoms (Coords coords # rest) =
     (case support_hatch_geoms rest of
        Inl e \<Rightarrow> Inl e
      | Inr gs \<Rightarrow> Inr (HatchGeometry coords # gs))"
| "support_hatch_geoms (Polygon ext # rest) =
     Inl (AttributeError ''object has no attribute reshape'')"

definition support_contour_geoms :: "'c simplified list \<Rightarrow> 'c geom list" where
  "support_contour_geoms items =
     map (\<lambda>coords. case coords of
                      Polygon ext \<Rightarrow> ContourGeometry (butlast ext)
                    | Coords cs \<Rightarrow> ContourGeometry cs) items"

definition build_layer ::
  "('c, 'm) slicing \<Rightarrow> 'm list \<Rightarrow> rat \<Rightarrow> rat \<Rightarrow> exn + 'c layer" where
  "build_layer lib supports_to_slice hatchAngle zPos =
     (let slice_geom_part = getVectorSlice lib zPos;
          g1 = (if slice_geom_part \<noteq> [] then hatch lib hatchAngle slice_geom_part else []);
          (innerHatchPaths_support, boundaryPaths_support) =
            (if supports_to_slice \<noteq> [] then support_slice lib supports_to_slice zPos
             else ([], []))
      in
      (case (if innerHatchPaths_support \<noteq> []
             then support_hatch_geoms (simplifyBoundaries lib innerHatchPaths_support)
             else Inr []) of
         Inl e \<Rightarrow> Inl e
       | Inr g2 \<Rightarrow>
           (let g3 = (if boundaryPaths_support \<noteq> []
                      then support_contour_geoms (simplifyBoundaries lib boundaryPaths_support)
                      else [])
            in Inr (Layer (int_trunc (zPos * 1000)) (g1 @ g2 @ g3)))))"

definition layer_dxf_name :: "path \<Rightarrow> string \<Rightarrow> nat \<Rightarrow> path" where
  "layer_dxf_name output_dxf_bruto_folder model_name layer_idx =
     path_join output_dxf_bruto_folder (model_name @ ''_layer'' @ str_nat layer_idx @ ''.dxf'')"

text \<open>
  Lines 297--334: the loop over the heights.  Its state is the layer index,
  the hatch angle and the layers kept for plotting; the events accumulate.
\<close>

fun slice_loop ::
  "('c, 'm) slicing \<Rightarrow> 'c os_env \<Rightarrow> 'm list \<Rightarrow> path \<Rightarrow> string \<Rightarrow> rat list
     \<Rightarrow> nat \<Rightarrow> rat \<Rightarrow> 'c layer list \<Rightarrow> 'c event list \<Rightarrow> ('c, 'c layer list) outcome" where
  "slice_loop lib env supports folder model_name [] layer_idx hatchAngle all_layers ev =
     (ev, Inr all_layers)"
| "slice_loop lib env supports folder model_name (zPos # rest) layer_idx hatchAngle
       all_layers ev =
     (case build_layer lib supports (hatchAngle + HATCH_ANGLE_INCREMENT) zPos of
        Inl e \<Rightarrow> (ev, Inl e)
      | Inr current_layer \<Rightarrow>
          (if layer_geometry current_layer \<noteq> [] then
             (case export_layer_to_dxf env current_layer
                     (layer_dxf_name folder model_name layer_idx) of
                (ev', Inl e) \<Rightarrow> (ev @ ev', Inl e)
              | (ev', Inr u) \<Rightarrow>
                  slice_loop lib env supports folder model_name rest (layer_idx + 1)
                    (hatchAngle + HATCH_ANGLE_INCREMENT) (all_layers @ [current_layer])
                    (ev @ ev'))
           else
             slice_loop lib env supports folder model_name rest (layer_idx + 1)
               (hatchAngle + HATCH_ANGLE_INCREMENT) all_layers ev))"

definition z_bounds_overall :: "('c, 'm) slicing \<Rightarrow> 'm list \<Rightarrow> rat \<times> rat" where
  "z_bounds_overall lib supports_to_slice =
     (let min_z_part = part_min_z lib;
          max_z_part = part_max_z lib;
          (min_z_support, max_z_support) =
            (if supports_to_slice \<noteq> [] then support_bounds_z lib supports_to_slice
             else (min_z_part, max_z_part))
      in (min min_z_part min_z_support, max max_z_part max_z_support))"

text \<open>Lines 293--295.\<close>

definition z_positions_of :: "rat \<Rightarrow> rat \<Rightarrow> int \<Rightarrow> rat list" where
  "z_positions_of min_z_overall max_z_overall num_layers =
     (let z_positions = arange min_z_overall (max_z_overall + LAYER_THICKNESS / 2)
                          LAYER_THICKNESS
      in if length z_positions = 0 \<and> num_layers = 1 then [min_z_overall] else z_positions)"

text \<open>Lines 293--341: what follows the test on the height.\<close>

definition slice_layers ::
  "('c, 'm) slicing \<Rightarrow> 'c os_env \<Rightarrow> 'm list \<Rightarrow> path \<Rightarrow> string \<Rightarrow> rat \<Rightarrow> rat \<Rightarrow> int
     \<Rightarrow> 'c event list \<Rightarrow> ('c, unit) outcome" where
  "slice_layers lib env supports_to_slice output_dxf_bruto_folder model_name
       min_z_overall max_z_overall num_layers ev0 =
     (case slice_loop lib env supports_to_slice output_dxf_bruto_folder model_name
             (z_positions_of min_z_overall max_z_overall num_layers)
             0 HATCH_ANGLE_INITIAL [] ev0 of
        (ev, Inl e) \<Rightarrow> (ev, Inl e)
      | (ev, Inr all_layers_combined) \<Rightarrow>
          (ev @ [Print (NL @ ''Plotting a sample of combined layers (raw DXFs)...'')]
              @ (if all_layers_combined \<noteq> []
                 then [PlotLayers (every_nth (max 1 (length all_layers_combined div 20))
                                             all_layers_combined)]
                 else [Print ''No raw layers generated to plot.'']),
           Inr ()))"

text \<open>Lines 253--292, then the rest.\<close>

definition slice_and_export_raw_dxfs ::
  "('c, 'm) slicing \<Rightarrow> 'c os_env \<Rightarrow> 'm list \<Rightarrow> path \<Rightarrow> string \<Rightarrow> ('c, unit) outcome" where
  "slice_and_export_raw_dxfs lib env supports_to_slice output_dxf_bruto_folder model_name =
     (let (min_z_overall, max_z_overall) = z_bounds_overall lib supports_to_slice;
          ev0 = [Print (NL @ ''--- Slicing to Raw DXFs ---''),
                 Print (''Slicing and processing layers for '' @ quoted model_name
                        @ '' (Raw DXF)...'')];
          num_layers = \<lceil>(max_z_overall - min_z_overall) / LAYER_THICKNESS\<rceil>
      in
      if num_layers = 0 \<and> max_z_overall > min_z_overall then
        slice_layers lib env supports_to_slice output_dxf_bruto_folder model_name
          min_z_overall max_z_overall 1 ev0
      else if max_z_overall \<le> min_z_overall then
        (ev0 @ [Print (''Warning: Part '' @ quoted model_name
                       @ '' has zero or negative height. No layers will be generated.'')],
         Inr ())
      else
        slice_layers lib env supports_to_slice output_dxf_bruto_folder model_name
          min_z_overall max_z_overall num_layers ev0)"

section \<open>Reference formulations\<close>

text \<open>
  The \<open>(x, y)\<close> of a point of an LWPOLYLINE and of a 3-vector; and the
  segments of a polyline given by its points: one per pair of consecutive
  points, in order, and one from the last point to the first when the polyline
  is closed and has more than two points.  \<open>entity_segments\<close> gives, for an
  entity of each of the three kinds, the segments of its points.
\<close>

definition xy_lw :: "'c lwpoint \<Rightarrow> 'c point" where
  "xy_lw p = [lw0 p, lw1 p]"

definition xy_v :: "'c vec3 \<Rightarrow> 'c point" where
  "xy_v p = [v0 p, v1 p]"

definition chain :: "'c point list \<Rightarrow> bool \<Rightarrow> 'c segment list" where
  "chain ps is_closed =
     map (\<lambda>(p, q). [p, q]) (zip ps (tl ps))
     @ (if is_closed \<and> 2 < length ps then [[last ps, hd ps]] else [])"

fun entity_segments :: "'c entity \<Rightarrow> 'c segment list" where
  "entity_segments (LWPOLYLINE points is_closed) = chain (map xy_lw points) is_closed"
| "entity_segments (POLYLINE vertices is_closed) = chain (map xy_v vertices) is_closed"
| "entity_segments (LINE start end) = [[xy_v start, xy_v end]]"
| "entity_segments _ = []"

text \<open>
  A segment as the spec writes it, \<open>((x1, y1), (x2, y2))\<close>, and the Python value
  that carries it.
\<close>

fun seg_of :: "('c \<times> 'c) \<times> ('c \<times> 'c) \<Rightarrow> 'c segment" where
  "seg_of ((x1, y1), (x2, y2)) = [[x1, y1], [x2, y2]]"

text \<open>A text given by its lines, each ended by a newline.\<close>

definition unlines :: "string list \<Rightarrow> string" where
  "unlines ls = concat (map (\<lambda>l. l @ NL) ls)"

text \<open>
  The machine format as the spec gives it: the header, one record of thirteen
  lines per segment, the footer.
\<close>

definition machine_text :: "('c \<Rightarrow> string) \<Rightarrow> (('c \<times> 'c) \<times> ('c \<times> 'c)) list \<Rightarrow> string" where
  "machine_text fmt3 ts =
     unlines [''0'', ''SECTION'', ''2'', ''ENTITIES'']
     @ concat (map (\<lambda>((x1, y1), (x2, y2)).
                      unlines [''0'', ''LINE'', ''8'', ''0'', ''10'', fmt3 x1, ''20'', fmt3 y1,
                               ''11'', fmt3 x2, ''21'', fmt3 y2, ''0'']) ts)
     @ unlines [''0'', ''ENDSEC'', ''0'', ''EOF'']"

text \<open>
  The part name that \<open>generate_auto_parameters_file\<close> writes: its argument, or
  the base name of the input folder when the argument is \<open>None\<close>.
\<close>

definition effective_part_name :: "path \<Rightarrow> string option \<Rightarrow> string" where
  "effective_part_name input_dxf_folder part_name =
     (case part_name of None \<Rightarrow> basename input_dxf_folder | Some n \<Rightarrow> n)"

text \<open>
  The paths of the documents saved during a run, in order; whether the layer
  built for the \<open>j\<close>-th height of \<open>zs\<close> has a non-empty geometry list, the
  hatch angle having been incremented \<open>j + 1\<close> times by then; and what a run of
  the slicing loop saves, from the events it starts with: for some number \<open>n\<close>
  of heights gone through, the files of the heights below \<open>n\<close> whose layer has
  geometry, each named by the position of its height, \<open>n\<close> being the number of
  all heights when the run returns normally.
\<close>

definition saved_paths :: "'c event list \<Rightarrow> path list" where
  "saved_paths ev = concat (map (\<lambda>e. case e of SaveAs p d \<Rightarrow> [p] | _ \<Rightarrow> []) ev)"

definition layer_has_geometry ::
  "('c, 'm) slicing \<Rightarrow> 'm list \<Rightarrow> rat \<Rightarrow> rat list \<Rightarrow> nat \<Rightarrow> bool" where
  "layer_has_geometry lib supports hatchAngle zs j =
     (case build_layer lib supports
             (hatchAngle + (of_nat j + 1) * HATCH_ANGLE_INCREMENT) (zs ! j) of
        Inl e \<Rightarrow> False
      | Inr layer \<Rightarrow> layer_geometry layer \<noteq> [])"

definition loop_saves ::
  "('c, 'm) slicing \<Rightarrow> 'm list \<Rightarrow> path \<Rightarrow> string \<Rightarrow> rat list \<Rightarrow> nat \<Rightarrow> rat
     \<Rightarrow> 'c event list \<Rightarrow> ('c, 'a) outcome \<Rightarrow> bool" where
  "loop_saves lib supports folder model_name zs layer_idx hatchAngle ev out =
     (\<exists>n. n \<le> length zs
          \<and> saved_paths (fst out)
             = saved_paths ev @ map (\<lambda>j. layer_dxf_name folder model_name (layer_idx + j))
                                  (filter (layer_has_geometry lib supports hatchAngle zs) [0 ..< n])
          \<and> ((\<exists>ls. snd out = Inr ls) \<longrightarrow> n = length zs))"

section \<open>Python's number formatting, on rationals\<close>

text \<open>
  The built-ins are parameters of the functions above, and the properties proved
  of these functions hold for every value of the parameters.  To run the
  functions on sample inputs, here are the built-ins on rationals: rounding is
  to the nearest, ties to the even neighbour; \<open>format(x, '.3f')\<close> keeps the
  sign of a negative value that rounds to zero.  They agree with Python on a
  float whose exact value is the rational.  A rational has no negative zero, so
  \<open>format(-0.0, '.3f')\<close>, which is \<open>-0.000\<close>, has no counterpart here; and the
  exact value of a float is in general not the decimal literal that denotes it,
  so a tie between two decimals need not be a tie for the float.
  \<open>str_decimal\<close> prints a terminating decimal with at least one digit after
  the point, as \<open>str\<close> does for a float of magnitude from \<open>1e-4\<close> up to
  \<open>1e16\<close> written as a short decimal literal; outside this range \<open>str\<close>
  uses the exponent notation (\<open>1e-05\<close>), which \<open>str_decimal\<close> does not.
\<close>

definition round_half_even :: "rat \<Rightarrow> int" where
  "round_half_even x =
     (let f = \<lfloor>x\<rfloor>; d = x - of_int f
      in if d < 1 / 2 then f else if 1 / 2 < d then f + 1 else if even f then f else f + 1)"

definition py_round :: "nat \<Rightarrow> rat \<Rightarrow> rat" where
  "py_round ndigits x = of_int (round_half_even (x * 10 ^ ndigits)) / 10 ^ ndigits"

definition format_f :: "nat \<Rightarrow> rat \<Rightarrow> string" where
  "format_f prec x =
     (let n = nat (round_half_even (\<bar>x\<bar> * 10 ^ prec));
          fs = str_nat (n mod 10 ^ prec)
      in (if x < 0 then ''-'' else []) @ str_nat (n div 10 ^ prec) @ ''.''
         @ replicate (prec - length fs) (CHR ''0'') @ fs)"

fun frac_digits :: "nat \<Rightarrow> rat \<Rightarrow> string" where
  "frac_digits 0 r = []"
| "frac_digits (Suc n) r =
     (if r = 0 then []
      else char_of (48 + nat \<lfloor>r * 10\<rfloor>) # frac_digits n (r * 10 - of_int \<lfloor>r * 10\<rfloor>))"

definition str_decimal :: "rat \<Rightarrow> string" where
  "str_decimal x =
     (let a = \<bar>x\<bar>; fs = frac_digits 17 (a - of_int \<lfloor>a\<rfloor>)
      in (if x < 0 then ''-'' else []) @ str_nat (nat \<lfloor>a\<rfloor>) @ ''.''
         @ (if fs = [] then ''0'' else fs))"

text \<open>The shape of a list of segments: two points each, two coordinates each.\<close>

definition shaped :: "'c segment list \<Rightarrow> bool" where
  "shaped segs = list_all (\<lambda>seg. length seg = 2 \<and> list_all (\<lambda>p. length p = 2) seg) segs"

section \<open>Sample inputs\<close>

text \<open>
  An environment in which every path exists and nothing raises, for given
  results of \<open>readfile\<close> and \<open>listdir\<close>; and a small drawing.
\<close>

definition quiet_env ::
  "(path \<Rightarrow> exn + 'c entity list) \<Rightarrow> (path \<Rightarrow> exn + string list) \<Rightarrow> 'c os_env" where
  "quiet_env rd ls =
     \<lparr>path_exists = (\<lambda>p. True), readfile = rd, listdir = ls,
      mkdir_raises = (\<lambda>p. None), mkdir_parent_raises = (\<lambda>p. None),
      makedirs_raises = (\<lambda>p. None), open_raises = (\<lambda>p. None),
      saveas_raises = (\<lambda>p. None)\<rparr>"

definition sample_modelspace :: "int entity list" where
  "sample_modelspace =
     [LINE (0, 0, 0) (5, 5, 0), CIRCLE (1, 1, 0) 2,
      LWPOLYLINE [(0, 0, 0, 0, 0), (1, 0, 0, 0, 0), (1, 1, 0, 0, 0)] True,
      POLYLINE [(2, 2, 0), (3, 2, 0)] True]"

definition sample_env :: "int os_env" where
  "sample_env = quiet_env (\<lambda>p. Inr sample_modelspace) (\<lambda>p. Inr [''a_layer0.dxf'', ''notes.md'', ''A_LAYER1.DXF''])"

text \<open>Two segments with rational coordinates, and an environment whose reader raises.\<close>

definition sample_segments :: "((rat \<times> rat) \<times> (rat \<times> rat)) list" where
  "sample_segments = [((0, 1 / 16), (5 / 2, - (1 / 3))), ((2 / 3, 3), (- 4, 1 / 2))]"

definition broken_env :: "exn \<Rightarrow> rat os_env" where
  "broken_env e = quiet_env (\<lambda>p. Inl e) (\<lambda>p. Inr [])"

text \<open>
  An environment without files; a layer with one contour, one hatch geometry of
  four coordinates and one point; a layer whose hatch geometry has three
  coordinates.
\<close>

definition empty_env :: "rat os_env" where
  "empty_env = quiet_env (\<lambda>p. Inr []) (\<lambda>p. Inr [])"

definition sample_layer :: "rat layer" where
  "sample_layer =
     Layer 30 [ContourGeometry [[0, 0], [1, 0], [1, 1]],
               HatchGeometry [[0, 0], [1, 1], [0, 1 / 2], [1, 1 / 2]],
               PointsGeometry [[1 / 2, 1 / 2]]]"

definition odd_layer :: "rat layer" where
  "odd_layer = Layer 30 [HatchGeometry [[0, 0], [1, 1], [0, 1 / 2]]]"

text \<open>A folder of two layer files that cannot be read.\<close>

definition other_env :: "int os_env" where
  "other_env = quiet_env (\<lambda>p. Inl (OSError ''unreadable'')) (\<lambda>p. Inr [''0.TXT'', ''readme'', ''1.txt''])"

text \<open>
  A part between the heights \<open>0\<close> and \<open>0.06\<close> whose slice at \<open>0.03\<close> is empty,
  without supports; and the same part with no height.
\<close>

definition sample_part :: "(rat, unit) slicing" where
  "sample_part =
     \<lparr>part_min_z = 0, part_max_z = 3 / 50,
      support_bounds_z = (\<lambda>ms. (0, 0)),
      getVectorSlice = (\<lambda>z. if z = 3 / 100 then [] else [[[0, 0], [1, 0], [1, 1]]]),
      hatch = (\<lambda>a paths. map ContourGeometry paths),
      support_slice = (\<lambda>ms z. ([], [])),
      simplifyBoundaries = (\<lambda>paths. [])\<rparr>"

definition flat_part :: "(rat, unit) slicing" where
  "flat_part = sample_part\<lparr>part_max_z := 0\<rparr>"

section \<open>Properties of the extraction\<close>

subsection \<open>Loops as maps\<close>

lemma fold_snoc_map: "fold (\<lambda>i acc. acc @ [f i]) is acc = acc @ map f is"
  by (induction "is" arbitrary: acc) simp_all

lemma map_upt_zip_tl:
  "map (\<lambda>i. g (xs ! i) (xs ! (i + 1))) [0 ..< length xs - 1] = map (\<lambda>(p, q). g p q) (zip xs (tl xs))"
  by (rule nth_equalityI) (auto simp: nth_tl)

lemma fold_consecutive:
  "fold (\<lambda>i acc. acc @ [g (xs ! i) (xs ! (i + 1))]) [0 ..< length xs - 1] acc
     = acc @ map (\<lambda>(p, q). g p q) (zip xs (tl xs))"
  by (simp only: fold_snoc_map map_upt_zip_tl)

lemma zip_tl_short: "\<not> 2 \<le> length xs \<Longrightarrow> zip xs (tl xs) = []"
  by (cases xs) (auto simp: Suc_le_eq)

lemma nth0_hd: "2 \<le> length xs \<Longrightarrow> xs ! 0 = hd xs"
  by (cases xs) auto

lemma chain_map:
  "chain (map f ps) c =
     map (\<lambda>(p, q). [f p, f q]) (zip ps (tl ps))
     @ (if c \<and> 2 < length ps then [[f (last ps), f (hd ps)]] else [])"
proof -
  have z: "zip (map f ps) (tl (map f ps)) = map (\<lambda>(p, q). (f p, f q)) (zip ps (tl ps))"
    unfolding map_tl [symmetric] zip_map_map by simp
  have l: "2 < length ps \<Longrightarrow> last (map f ps) = f (last ps) \<and> hd (map f ps) = f (hd ps)"
    by (cases ps) (auto simp: last_map hd_map)
  show ?thesis
    unfolding chain_def z using l by (auto simp: case_prod_unfold)
qed

lemma lwpolyline_segments_chain:
  "lwpolyline_segments points c acc = acc @ chain (map xy_lw points) c"
proof (cases "length points \<ge> 2")
  case True
  have f: "fold (\<lambda>i acc. acc @ [[[lw0 (points ! i), lw1 (points ! i)],
                                  [lw0 (points ! (i + 1)), lw1 (points ! (i + 1))]]])
             [0 ..< length points - 1] acc
        = acc @ map (\<lambda>(p, q). [xy_lw p, xy_lw q]) (zip points (tl points))"
    using fold_consecutive [of "\<lambda>p q. [xy_lw p, xy_lw q]" points acc] by (simp only: xy_lw_def)
  show ?thesis
    unfolding lwpolyline_segments_def f Let_def chain_map
    using True by (auto simp: xy_lw_def nth0_hd)
next
  case False
  then show ?thesis by (simp add: lwpolyline_segments_def chain_map zip_tl_short)
qed

lemma collect_polyline_points_Nil: "collect_polyline_points vertices = []"
proof -
  have "fold (\<lambda>vertex current_polyline_points.
                case dxf_location vertex of
                  Inr loc \<Rightarrow> current_polyline_points @ [[v0 loc, v1 loc]]
                | Inl e \<Rightarrow> current_polyline_points) vertices acc = acc"
    for acc :: "'a point list"
    by (induction vertices arbitrary: acc) (simp_all add: dxf_location_def)
  then show ?thesis by (simp only: collect_polyline_points_def)
qed

lemma lwpolyline_step_segments:
  "dxftype e = ''LWPOLYLINE'' \<Longrightarrow> lwpolyline_step e acc = acc @ entity_segments e"
  by (cases e) (simp_all add: lwpolyline_segments_chain)

lemma polyline_step_skips: "polyline_step e acc = acc"
  by (cases e) (simp_all add: collect_polyline_points_Nil polyline_segments_def)

lemma line_step_segments:
  "dxftype e = ''LINE'' \<Longrightarrow> line_step e acc = acc @ entity_segments e"
  by (cases e) (simp_all add: xy_v_def)

lemma fold_step_concat:
  assumes "\<And>e acc. e \<in> set es \<Longrightarrow> step e acc = acc @ g e"
  shows "fold step es acc = acc @ concat (map g es)"
  using assms by (induction es arbitrary: acc) simp_all

lemma fold_polyline_step: "fold polyline_step es acc = acc"
  by (induction es arbitrary: acc) (simp_all add: polyline_step_skips)

lemma extract_line_segments_eq:
  "extract_line_segments msp =
     concat (map entity_segments (query ''LWPOLYLINE'' msp @ query ''LINE'' msp))"
proof -
  have a: "fold lwpolyline_step (query ''LWPOLYLINE'' msp) acc
             = acc @ concat (map entity_segments (query ''LWPOLYLINE'' msp))" for acc
    by (rule fold_step_concat) (simp add: query_def lwpolyline_step_segments)
  have c: "fold line_step (query ''LINE'' msp) acc
             = acc @ concat (map entity_segments (query ''LINE'' msp))" for acc
    by (rule fold_step_concat) (simp add: query_def line_step_segments)
  show ?thesis by (simp add: extract_line_segments_def a fold_polyline_step c)
qed

lemma chain_open_length: "length (chain ps False) = length ps - 1"
  by (simp add: chain_def)

lemma chain_nth: "i + 1 < length ps \<Longrightarrow> chain ps c ! i = [ps ! i, ps ! (i + 1)]"
  by (auto simp: chain_def nth_append nth_tl)

lemma chain_closed:
  "chain ps True = chain ps False @ (if 2 < length ps then [[last ps, hd ps]] else [])"
  by (simp add: chain_def)

lemma extract_singleton:
  "extract_line_segments [e] = (if dxftype e = ''POLYLINE'' then [] else entity_segments e)"
  by (cases e) (simp_all add: extract_line_segments_eq query_def)

subsection \<open>The entity kinds that yield segments\<close>

text \<open>
  C3, as the code has it.  \<open>get_line_segments_from_dxf\<close> returns the segments of
  the LWPOLYLINE entities, then those of the LINE entities, each group in
  modelspace order; an entity of any other type contributes nothing, and so
  does every POLYLINE, whatever its vertices: the items of \<open>entity.points()\<close>
  never pass the \<open>hasattr\<close> test of line 91, so the list of collected points
  stays empty.  An LWPOLYLINE with points \<open>ps\<close> gives the segments \<open>chain ps\<close>:
  the \<open>length ps - 1\<close> segments between consecutive points, in order, followed
  by the segment from the last point to the first exactly when the polyline is
  closed and has more than two points.  A LINE gives the one segment from its
  start to its end.
\<close>

theorem get_line_segments_from_dxf_skips_polylines:
  "(readfile env dxf_path = Inr msp \<longrightarrow>
      get_line_segments_from_dxf env dxf_path = ([], Inr (extract_line_segments msp)))
   \<and> extract_line_segments msp =
       concat (map (\<lambda>e. extract_line_segments [e])
                 (query ''LWPOLYLINE'' msp @ query ''LINE'' msp))
   \<and> (dxftype e \<notin> {''LWPOLYLINE'', ''LINE''} \<longrightarrow> extract_line_segments [e] = [])
   \<and> extract_line_segments [LWPOLYLINE points is_closed] = chain (map xy_lw points) is_closed
   \<and> extract_line_segments [POLYLINE vertices is_closed] = []
   \<and> extract_line_segments [LINE start end] = [[xy_v start, xy_v end]]
   \<and> length (chain ps False) = length ps - 1
   \<and> (\<forall>i. i + 1 < length ps \<longrightarrow> chain ps is_closed ! i = [ps ! i, ps ! (i + 1)])
   \<and> chain ps True = chain ps False @ (if 2 < length ps then [[last ps, hd ps]] else [])"
proof -
  have s: "map (\<lambda>e. extract_line_segments [e]) (query ''LWPOLYLINE'' msp @ query ''LINE'' msp)
         = map entity_segments (query ''LWPOLYLINE'' msp @ query ''LINE'' msp)"
    by (rule map_cong [OF refl]) (auto simp: extract_singleton query_def)
  have "extract_line_segments msp =
       concat (map (\<lambda>e. extract_line_segments [e])
                 (query ''LWPOLYLINE'' msp @ query ''LINE'' msp))"
    unfolding s by (rule extract_line_segments_eq)
  moreover have "dxftype e \<notin> {''LWPOLYLINE'', ''LINE''} \<longrightarrow> extract_line_segments [e] = []"
    unfolding extract_singleton by (cases e) simp_all
  moreover have "\<forall>i. i + 1 < length ps \<longrightarrow> chain ps is_closed ! i = [ps ! i, ps ! (i + 1)]"
    using chain_nth by blast
  ultimately show ?thesis
    by (simp add: get_line_segments_from_dxf_def extract_singleton chain_open_length
          chain_closed [symmetric])
qed

theorem get_line_segments_from_dxf_skips_polylines_witness:
  "get_line_segments_from_dxf sample_env ''layer0.dxf''
   = ([], Inr [[[0, 0], [1, 0]], [[1, 0], [1, 1]], [[1, 1], [0, 0]],
               [[0, 0], [5, 5]]])"
proof -
  have r: "readfile sample_env ''layer0.dxf'' = Inr sample_modelspace"
    by (simp add: sample_env_def quiet_env_def)
  have a: "get_line_segments_from_dxf sample_env ''layer0.dxf''
             = ([], Inr (extract_line_segments sample_modelspace))"
    using get_line_segments_from_dxf_skips_polylines
            [where env = sample_env and dxf_path = "''layer0.dxf''" and msp = sample_modelspace]
          r
    by blast
  have b: "extract_line_segments sample_modelspace
             = [[[0, 0], [1, 0]], [[1, 0], [1, 1]], [[1, 1], [0, 0]], [[0, 0], [5, 5]]]"
    by (simp add: sample_modelspace_def extract_line_segments_eq query_def
          chain_def xy_lw_def xy_v_def lw0_def lw1_def v0_def v1_def)
  show ?thesis unfolding a b ..
qed

text \<open>
  A drawing that holds one open POLYLINE with the two vertices \<open>(0, 0)\<close> and
  \<open>(1, 0)\<close>: the polyline has the one segment from \<open>(0, 0)\<close> to \<open>(1, 0)\<close>, and
  \<open>get_line_segments_from_dxf\<close> returns the empty list.
\<close>

theorem open_polyline_yields_no_segment:
  "entity_segments (POLYLINE [(0 :: int, 0, 0), (1, 0, 0)] False) = [[[0, 0], [1, 0]]]
   \<and> length [(0 :: int, 0 :: int, 0 :: int), (1, 0, 0)] - 1 = 1
   \<and> extract_line_segments [POLYLINE [(0 :: int, 0, 0), (1, 0, 0)] False] = []
   \<and> get_line_segments_from_dxf
        (quiet_env (\<lambda>p. Inr [POLYLINE [(0 :: int, 0, 0), (1, 0, 0)] False]) (\<lambda>p. Inr []))
        ''layer0.dxf'' = ([], Inr [])"
  by (simp add: get_line_segments_from_dxf_def quiet_env_def extract_line_segments_def query_def
        collect_polyline_points_def polyline_segments_def dxf_location_def
        chain_def xy_v_def v0_def v1_def)

subsection \<open>The copies of the extraction loop\<close>

text \<open>
  C1.  On a closed LWPOLYLINE through \<open>(0, 0)\<close>, \<open>(1, 0)\<close>, \<open>(1, 1)\<close> the closing
  segment of \<open>get_line_segments_from_dxf\<close> and of \<open>convert_dxf_to_lines_only\<close>
  starts at \<open>(1, 1)\<close>, the last point; the one of both copies of
  \<open>convert_dxf_to_lines_only_machine_format\<close> starts at \<open>(1, 0)\<close>, the \<open>x\<close> of the
  last point with the \<open>y\<close> of the first.
\<close>

theorem closing_segment_differs:
  "extract_line_segments
     [LWPOLYLINE [(0, 0, 0, 0, 0), (1, 0, 0, 0, 0), (1, 1, 0, 0, 0)] True]
     = [[[0, 0], [1, 0]], [[1, 0], [1, 1]], [[1, 1], [0, 0 :: int]]]
   \<and> extract_lines_only
     [LWPOLYLINE [(0, 0, 0, 0, 0), (1, 0, 0, 0, 0), (1, 1, 0, 0, 0)] True]
     = [[[0, 0], [1, 0]], [[1, 0], [1, 1]], [[1, 1], [0, 0 :: int]]]
   \<and> extract_machine_format
     [LWPOLYLINE [(0, 0, 0, 0, 0), (1, 0, 0, 0, 0), (1, 1, 0, 0, 0)] True]
     = [[[0, 0], [1, 0]], [[1, 0], [1, 1]], [[1, 0], [0, 0 :: int]]]
   \<and> up_extract_machine_format
     [LWPOLYLINE [(0, 0, 0, 0, 0), (1, 0, 0, 0, 0), (1, 1, 0, 0, 0)] True]
     = [[[0, 0], [1, 0]], [[1, 0], [1, 1]], [[1, 0], [0, 0 :: int]]]"
  by (simp add: extract_line_segments_def extract_lines_only_def extract_machine_format_def
        up_extract_machine_format_def query_def lwpolyline_segments_def
        lwpolyline_segments_mf_def up_lwpolyline_segments_mf_def
        lw0_def lw1_def upt_rec)

subsection \<open>The shape of the extracted segments\<close>

lemma shaped_Nil: "shaped []"
  by (simp add: shaped_def)

lemma shaped_append: "shaped (xs @ ys) = (shaped xs \<and> shaped ys)"
  by (simp add: shaped_def)

lemma shaped_single: "shaped [[[a, b], [c, d]]]"
  by (simp add: shaped_def)

lemma shaped_map: "(\<And>i. shaped [f i]) \<Longrightarrow> shaped (map f is)"
  by (induction "is") (simp_all add: shaped_def)

lemma shaped_iff:
  "shaped segs = (\<forall>seg \<in> set segs. \<exists>x1 y1 x2 y2. seg = [[x1, y1], [x2, y2]])"
proof -
  have eq: "(length seg = 2 \<and> (\<forall>p \<in> set seg. length p = 2))
          = (\<exists>x1 y1 x2 y2. seg = [[x1, y1], [x2, y2]])" for seg :: "'c segment"
  proof
    assume h: "length seg = 2 \<and> (\<forall>p \<in> set seg. length p = 2)"
    then obtain p q where s: "seg = [p, q]"
      by (cases seg; cases "tl seg") auto
    with h have "length p = 2" "length q = 2" by simp_all
    then obtain a b c d where "p = [a, b]" "q = [c, d]"
      by (cases p; cases "tl p"; cases q; cases "tl q") auto
    with s show "\<exists>x1 y1 x2 y2. seg = [[x1, y1], [x2, y2]]" by blast
  next
    assume "\<exists>x1 y1 x2 y2. seg = [[x1, y1], [x2, y2]]"
    then show "length seg = 2 \<and> (\<forall>p \<in> set seg. length p = 2)" by auto
  qed
  show ?thesis unfolding shaped_def list_all_iff eq by (rule refl)
qed

lemma shaped_lwpolyline_segments: "shaped acc \<Longrightarrow> shaped (lwpolyline_segments ps c acc)"
  by (simp add: lwpolyline_segments_def Let_def fold_snoc_map shaped_append shaped_single shaped_map)

lemma shaped_lwpolyline_segments_mf: "shaped acc \<Longrightarrow> shaped (lwpolyline_segments_mf ps c acc)"
  by (simp add: lwpolyline_segments_mf_def Let_def fold_snoc_map shaped_append shaped_single shaped_map)

lemma shaped_up_lwpolyline_segments_mf:
  "shaped acc \<Longrightarrow> shaped (up_lwpolyline_segments_mf ps c acc)"
  by (simp add: up_lwpolyline_segments_mf_def Let_def fold_snoc_map shaped_append shaped_single shaped_map)

lemma shaped_lwpolyline_segments_mp: "shaped acc \<Longrightarrow> shaped (lwpolyline_segments_mp ps c acc)"
  by (simp add: lwpolyline_segments_mp_def Let_def fold_snoc_map shaped_append shaped_single shaped_map)

lemma shaped_polyline_segments: "shaped acc \<Longrightarrow> shaped (polyline_segments cpp c acc)"
  by (simp add: polyline_segments_def Let_def fold_snoc_map shaped_append shaped_single shaped_map)

lemma shaped_lwpolyline_step: "shaped acc \<Longrightarrow> shaped (lwpolyline_step e acc)"
  by (cases e) (simp_all add: shaped_lwpolyline_segments)

lemma shaped_lwpolyline_step_mf: "shaped acc \<Longrightarrow> shaped (lwpolyline_step_mf e acc)"
  by (cases e) (simp_all add: shaped_lwpolyline_segments_mf)

lemma shaped_up_lwpolyline_step_mf: "shaped acc \<Longrightarrow> shaped (up_lwpolyline_step_mf e acc)"
  by (cases e) (simp_all add: shaped_up_lwpolyline_segments_mf)

lemma shaped_lwpolyline_step_mp: "shaped acc \<Longrightarrow> shaped (lwpolyline_step_mp e acc)"
  by (cases e) (simp_all add: shaped_lwpolyline_segments_mp)

lemma shaped_polyline_step: "shaped acc \<Longrightarrow> shaped (polyline_step e acc)"
  by (cases e) (simp_all add: shaped_polyline_segments)

lemma shaped_line_step: "shaped acc \<Longrightarrow> shaped (line_step e acc)"
  by (cases e) (simp_all add: shaped_append shaped_single)

lemma shaped_fold:
  "(\<And>e acc. shaped acc \<Longrightarrow> shaped (step e acc)) \<Longrightarrow> shaped acc \<Longrightarrow> shaped (fold step es acc)"
  by (induction es arbitrary: acc) simp_all

lemma shaped_polyline_loop_mp:
  "shaped acc \<Longrightarrow> shaped (fst (polyline_loop_mp es acc))"
  by (induction es acc rule: polyline_loop_mp.induct)
     (simp_all add: shaped_polyline_segments split: sum.splits)

lemma shaped_extract_line_segments: "shaped (extract_line_segments msp)"
  unfolding extract_line_segments_def
  by (intro shaped_fold shaped_line_step shaped_polyline_step shaped_lwpolyline_step shaped_Nil)

lemma shaped_extract_lines_only: "shaped (extract_lines_only msp)"
  unfolding extract_lines_only_def
  by (intro shaped_fold shaped_line_step shaped_polyline_step shaped_lwpolyline_step shaped_Nil)

lemma shaped_extract_machine_format: "shaped (extract_machine_format msp)"
  unfolding extract_machine_format_def
  by (intro shaped_fold shaped_line_step shaped_polyline_step shaped_lwpolyline_step_mf shaped_Nil)

lemma shaped_up_extract_machine_format: "shaped (up_extract_machine_format msp)"
  unfolding up_extract_machine_format_def
  by (intro shaped_fold shaped_line_step shaped_polyline_step shaped_up_lwpolyline_step_mf shaped_Nil)

lemma shaped_get_line_segments_from_dxf:
  "get_line_segments_from_dxf env p = (ev, Inr segs) \<Longrightarrow> shaped segs"
  by (auto simp: get_line_segments_from_dxf_def shaped_extract_line_segments shaped_Nil
           split: sum.splits if_splits)

lemma shaped_get_dxf_line_segments:
  assumes "get_dxf_line_segments env p = Inr segs"
  shows "shaped segs"
proof (cases "readfile env p")
  case (Inl e)
  with assms show ?thesis
    by (auto simp: get_dxf_line_segments_def shaped_Nil split: if_splits)
next
  case (Inr msp)
  let ?acc = "fold lwpolyline_step_mp (query ''LWPOLYLINE'' msp)
                (fold line_step (query ''LINE'' msp) [])"
  have "shaped ?acc"
    by (intro shaped_fold shaped_line_step shaped_lwpolyline_step_mp shaped_Nil)
  then have "shaped (fst (polyline_loop_mp (query ''POLYLINE'' msp) ?acc))"
    by (rule shaped_polyline_loop_mp)
  with assms Inr show ?thesis
    by (auto simp: get_dxf_line_segments_def split: prod.splits option.splits if_splits)
qed

text \<open>
  C6.  Every element of the list returned by each extraction function, for every
  document and every outcome of the read, is a segment of exactly two points,
  each point a pair of exactly two coordinates.  The empty list is included:
  the statements are about the elements.
\<close>

theorem extracted_segments_pair_two_points:
  "(\<forall>seg \<in> set (extract_line_segments msp). \<exists>x1 y1 x2 y2. seg = [[x1, y1], [x2, y2]])
   \<and> (\<forall>seg \<in> set (extract_machine_format msp). \<exists>x1 y1 x2 y2. seg = [[x1, y1], [x2, y2]])
   \<and> (\<forall>seg \<in> set (up_extract_machine_format msp). \<exists>x1 y1 x2 y2. seg = [[x1, y1], [x2, y2]])
   \<and> (\<forall>seg \<in> set (extract_lines_only msp). \<exists>x1 y1 x2 y2. seg = [[x1, y1], [x2, y2]])
   \<and> (get_line_segments_from_dxf env dxf_path = (ev, Inr segs) \<longrightarrow>
        (\<forall>seg \<in> set segs. \<exists>x1 y1 x2 y2. seg = [[x1, y1], [x2, y2]]))
   \<and> (get_dxf_line_segments env dxf_path = Inr segments \<longrightarrow>
        (\<forall>seg \<in> set segments. \<exists>x1 y1 x2 y2. seg = [[x1, y1], [x2, y2]]))"
  using shaped_extract_line_segments [of msp] shaped_extract_machine_format [of msp]
        shaped_up_extract_machine_format [of msp] shaped_extract_lines_only [of msp]
        shaped_get_line_segments_from_dxf [of env dxf_path ev segs]
        shaped_get_dxf_line_segments [of env dxf_path segments]
  unfolding shaped_iff by blast

theorem extracted_segments_pair_two_points_witness:
  "extract_machine_format sample_modelspace
     = [[[0, 0], [1, 0]], [[1, 0], [1, 1]], [[1, 0], [0, 0]], [[0, 0], [5, 5]]]
   \<and> shaped (extract_machine_format sample_modelspace)
   \<and> get_dxf_line_segments sample_env ''layer0.dxf''
     = Inr [[[0, 0], [5, 5]], [[0, 0], [1, 0]], [[1, 0], [1, 1]], [[1, 1], [0, 0]]]"
proof -
  have a: "extract_machine_format sample_modelspace
     = [[[0, 0], [1, 0]], [[1, 0], [1, 1]], [[1, 0], [0, 0]], [[0, 0], [5, 5]]]"
    by (simp add: sample_modelspace_def extract_machine_format_def query_def
          lwpolyline_segments_mf_def collect_polyline_points_def polyline_segments_def
          dxf_location_def lw0_def lw1_def v0_def v1_def upt_rec)
  have b: "shaped (extract_machine_format sample_modelspace)"
    unfolding shaped_iff
    using extracted_segments_pair_two_points [where msp = sample_modelspace]
    by blast
  have c: "get_dxf_line_segments sample_env ''layer0.dxf''
     = Inr [[[0, 0], [5, 5]], [[0, 0], [1, 0]], [[1, 0], [1, 1]], [[1, 1], [0, 0]]]"
    by (simp add: get_dxf_line_segments_def sample_env_def quiet_env_def sample_modelspace_def
          query_def lwpolyline_segments_mp_def polyline_segments_def dxf_location_def
          lw0_def lw1_def v0_def v1_def upt_rec)
  from a b c show ?thesis by blast
qed

section \<open>Properties of the writers\<close>

subsection \<open>The machine format\<close>

lemma segment_coords_seg_of:
  "segment_coords (seg_of ((x1, y1), (x2, y2))) = Inr (x1, y1, x2, y2)"
  by (simp add: segment_coords_def subscript_def)

lemma line_record_unlines:
  "line_record fmt3 x1 y1 x2 y2 =
     unlines [''0'', ''LINE'', ''8'', ''0'', ''10'', fmt3 x1, ''20'', fmt3 y1,
              ''11'', fmt3 x2, ''21'', fmt3 y2, ''0'']"
  by (simp add: line_record_def unlines_def)

lemma writes_unlines:
  "writes f (map (\<lambda>l. l @ NL) ls) = f @ unlines ls"
  by (induction ls arbitrary: f) (simp_all add: writes_def unlines_def)

lemma write_segments_seg_of:
  "write_segments fmt3 (map seg_of ts) f =
     (f @ concat (map (\<lambda>((x1, y1), (x2, y2)).
                         unlines [''0'', ''LINE'', ''8'', ''0'', ''10'', fmt3 x1, ''20'', fmt3 y1,
                                  ''11'', fmt3 x2, ''21'', fmt3 y2, ''0'']) ts), None)"
proof (induction ts arbitrary: f)
  case Nil
  show ?case by simp
next
  case (Cons t ts)
  obtain x1 y1 x2 y2 where t: "t = ((x1, y1), (x2, y2))" by (cases t) auto
  show ?case
    using Cons.IH
    by (simp only: t list.map write_segments.simps segment_coords_seg_of sum.case prod.case
          line_record_unlines concat.simps append_assoc)
qed

lemma write_segments_lo_seg_of:
  "write_segments_lo fmt3 (map seg_of ts) f =
     (f @ concat (map (\<lambda>((x1, y1), (x2, y2)).
                         unlines [''0'', ''LINE'', ''8'', ''0'', ''10'', fmt3 x1, ''20'', fmt3 y1,
                                  ''11'', fmt3 x2, ''21'', fmt3 y2, ''0'']) ts), None)"
proof (induction ts arbitrary: f)
  case Nil
  show ?case by simp
next
  case (Cons t ts)
  obtain x1 y1 x2 y2 where t: "t = ((x1, y1), (x2, y2))" by (cases t) auto
  have w: "writes f [''0'' @ NL, ''LINE'' @ NL, ''8'' @ NL, ''0'' @ NL,
                     ''10'' @ NL, fmt3 x1 @ NL, ''20'' @ NL, fmt3 y1 @ NL,
                     ''11'' @ NL, fmt3 x2 @ NL, ''21'' @ NL, fmt3 y2 @ NL, ''0'' @ NL]
         = f @ unlines [''0'', ''LINE'', ''8'', ''0'', ''10'', fmt3 x1, ''20'', fmt3 y1,
                        ''11'', fmt3 x2, ''21'', fmt3 y2, ''0'']" for f
    using writes_unlines [of f "[''0'', ''LINE'', ''8'', ''0'', ''10'', fmt3 x1, ''20'', fmt3 y1,
                        ''11'', fmt3 x2, ''21'', fmt3 y2, ''0'']"]
    by (simp only: list.map)
  show ?case
    using Cons.IH
    by (simp only: t list.map write_segments_lo.simps segment_coords_seg_of sum.case prod.case
          w concat.simps append_assoc)
qed

lemma write_machine_format_text:
  "write_machine_format fmt3 (map seg_of ts) = (machine_text fmt3 ts, None)"
proof -
  have h: "''0'' @ NL @ ''SECTION'' @ NL @ ''2'' @ NL @ ''ENTITIES'' @ NL
             = unlines [''0'', ''SECTION'', ''2'', ''ENTITIES'']"
          "f @ ''0'' @ NL @ ''ENDSEC'' @ NL @ ''0'' @ NL @ ''EOF'' @ NL
             = f @ unlines [''0'', ''ENDSEC'', ''0'', ''EOF'']" for f
    by (simp_all add: unlines_def)
  show ?thesis
    unfolding write_machine_format_def h write_segments_seg_of machine_text_def
    by simp
qed

lemma write_lines_only_text:
  "write_lines_only fmt3 (map seg_of ts) = (machine_text fmt3 ts, None)"
proof -
  have h: "writes [] [''0'' @ NL, ''SECTION'' @ NL, ''2'' @ NL, ''ENTITIES'' @ NL]
             = unlines [''0'', ''SECTION'', ''2'', ''ENTITIES'']"
          "writes f [''0'' @ NL, ''ENDSEC'' @ NL, ''0'' @ NL, ''EOF'' @ NL]
             = f @ unlines [''0'', ''ENDSEC'', ''0'', ''EOF'']" for f
    using writes_unlines [of "[]" "[''0'', ''SECTION'', ''2'', ''ENTITIES'']"]
          writes_unlines [of f "[''0'', ''ENDSEC'', ''0'', ''EOF'']"]
    by simp_all
  show ?thesis
    unfolding write_lines_only_def h write_segments_lo_seg_of machine_text_def
    by simp
qed

lemma shaped_seg_of: "shaped segs \<Longrightarrow> \<exists>ts. segs = map seg_of ts"
proof (induction segs)
  case Nil
  show ?case by simp
next
  case (Cons seg segs)
  then obtain ts where ts: "segs = map seg_of ts" by (auto simp: shaped_def)
  from Cons.prems obtain x1 y1 x2 y2 where "seg = [[x1, y1], [x2, y2]]"
    unfolding shaped_iff by auto
  then have "seg # segs = map seg_of (((x1, y1), (x2, y2)) # ts)" using ts by simp
  then show ?case by (rule exI)
qed

text \<open>
  C2.  For every list of segments \<open>((x1, y1), (x2, y2))\<close> the writer of
  \<open>convert_dxf_to_lines_only_machine_format\<close> and the one of
  \<open>convert_dxf_to_lines_only\<close> produce exactly the header lines
  \<open>0, SECTION, 2, ENTITIES\<close>, then for each segment, in list order, the lines
  \<open>0, LINE, 8, 0, 10, x1, 20, y1, 11, x2, 21, y2, 0\<close> with every coordinate
  formatted by \<open>:.3f\<close>, then \<open>0, ENDSEC, 0, EOF\<close>, and nothing else; no exception
  occurs.  When the input exists and is read, and the output can be opened, that
  text is the content of the file the converter writes.  Every list that the
  extraction loops return is such a list of segments.
\<close>

theorem machine_format_text_is_template:
  "(let text = unlines [''0'', ''SECTION'', ''2'', ''ENTITIES'']
               @ concat (map (\<lambda>((x1, y1), (x2, y2)).
                                unlines [''0'', ''LINE'', ''8'', ''0'', ''10'', fmt3 x1,
                                         ''20'', fmt3 y1, ''11'', fmt3 x2, ''21'', fmt3 y2, ''0''])
                             ts)
               @ unlines [''0'', ''ENDSEC'', ''0'', ''EOF'']
    in write_machine_format fmt3 (map seg_of ts) = (text, None)
       \<and> write_lines_only fmt3 (map seg_of ts) = (text, None)
       \<and> (path_exists env input_dxf_path \<and> readfile env input_dxf_path = Inr msp
            \<and> extract_machine_format msp = map seg_of ts
            \<and> mkdir_parent_raises env output_target_path = None
            \<and> open_raises env output_target_path = None
          \<longrightarrow> convert_dxf_to_lines_only_machine_format env fmt3 input_dxf_path output_target_path
                = ([Mkdir_parent output_target_path, WriteFile output_target_path text], Inr ()))
       \<and> (path_exists env input_dxf_path \<and> readfile env input_dxf_path = Inr msp
            \<and> extract_lines_only msp = map seg_of ts
            \<and> makedirs_raises env (dirname output_target_path) = None
            \<and> open_raises env output_target_path = None
          \<longrightarrow> convert_dxf_to_lines_only env fmt3 input_dxf_path output_target_path ext
                = ((if dirname output_target_path \<noteq> []
                       \<and> \<not> path_exists env (dirname output_target_path)
                    then [Makedirs (dirname output_target_path)] else [])
                   @ [WriteFile output_target_path text], Inr ())))
   \<and> (\<exists>ts'. extract_machine_format msp = map seg_of ts')
   \<and> (\<exists>ts'. extract_lines_only msp = map seg_of ts')"
proof -
  note a = write_machine_format_text [of fmt3 ts, unfolded machine_text_def]
  note b = write_lines_only_text [of fmt3 ts, unfolded machine_text_def]
  have c: "\<exists>ts'. extract_machine_format msp = map seg_of ts'"
    by (rule shaped_seg_of [OF shaped_extract_machine_format])
  have d: "\<exists>ts'. extract_lines_only msp = map seg_of ts'"
    by (rule shaped_seg_of [OF shaped_extract_lines_only])
  show ?thesis
    unfolding Let_def
    using a b c d
    by (auto simp: convert_dxf_to_lines_only_machine_format_def convert_dxf_to_lines_only_def
          Let_def)
qed

theorem machine_format_text_is_template_witness:
  "write_machine_format (format_f 3) (map seg_of sample_segments)
     = (unlines [''0'', ''SECTION'', ''2'', ''ENTITIES'',
                 ''0'', ''LINE'', ''8'', ''0'', ''10'', ''0.000'', ''20'', ''0.062'',
                 ''11'', ''2.500'', ''21'', ''-0.333'', ''0'',
                 ''0'', ''LINE'', ''8'', ''0'', ''10'', ''0.667'', ''20'', ''3.000'',
                 ''11'', ''-4.000'', ''21'', ''0.500'', ''0'',
                 ''0'', ''ENDSEC'', ''0'', ''EOF''], None)"
proof -
  have f: "format_f 3 0 = ''0.000''" "format_f 3 (1 / 16) = ''0.062''"
          "format_f 3 (5 / 2) = ''2.500''" "format_f 3 (- (1 / 3)) = ''-0.333''"
          "format_f 3 (2 / 3) = ''0.667''" "format_f 3 3 = ''3.000''"
          "format_f 3 (- 4) = ''-4.000''" "format_f 3 (1 / 2) = ''0.500''"
    by code_simp+
  show ?thesis
    using machine_format_text_is_template [where ?fmt3.0 = "format_f 3" and ts = sample_segments]
    by (simp add: Let_def sample_segments_def unlines_def f)
qed

subsection \<open>Errors of the read\<close>

text \<open>
  C4.  When reading the input raises an exception that derives from
  \<open>Exception\<close> (a \<open>DXFStructureError\<close> or any other), \<open>get_line_segments_from_dxf\<close>
  logs one message and returns the empty list, and
  \<open>convert_dxf_to_lines_only_machine_format\<close> prints one message and returns:
  it creates no directory and writes no file.  Both return normally.
\<close>

theorem read_errors_are_caught:
  "readfile env dxf_path = Inl e \<and> is_Exception e \<longrightarrow>
     get_line_segments_from_dxf env dxf_path
       = ([LogError (if is_DXFStructureError e
                     then ''Invalid DXF structure for '' @ quoted dxf_path @ ''. Skipping.''
                     else ''Unexpected error reading '' @ quoted dxf_path @ '': '' @ str_exn e
                          @ ''. Skipping.'')],
          Inr [])
     \<and> convert_dxf_to_lines_only_machine_format env fmt3 dxf_path output_target_path
       = ([Print (if \<not> path_exists env dxf_path
                  then ''Error: Input DXF file not found at '' @ quoted dxf_path
                  else if is_DXFStructureError e
                  then ''Error: Invalid DXF file structure for '' @ quoted dxf_path
                       @ ''. Skipping.''
                  else ''An unexpected error occurred reading '' @ quoted dxf_path @ '': ''
                       @ str_exn e @ ''. Skipping.'')],
          Inr ())"
  by (simp add: get_line_segments_from_dxf_def convert_dxf_to_lines_only_machine_format_def)

theorem read_errors_are_caught_witness:
  "get_line_segments_from_dxf (broken_env (DXFStructureError ''no EOF'')) ''layer0.dxf''
     = ([LogError (''Invalid DXF structure for '' @ quoted ''layer0.dxf'' @ ''. Skipping.'')],
        Inr [])
   \<and> convert_dxf_to_lines_only_machine_format (broken_env (OSError ''denied'')) (format_f 3)
        ''layer0.dxf'' ''out/machine_layer0.dxf''
     = ([Print (''An unexpected error occurred reading '' @ quoted ''layer0.dxf''
                @ '': denied. Skipping.'')], Inr ())"
  using read_errors_are_caught
          [where env = "broken_env (DXFStructureError ''no EOF'')" and dxf_path = "''layer0.dxf''"
             and e = "DXFStructureError ''no EOF''"]
        read_errors_are_caught
          [where env = "broken_env (OSError ''denied'')" and dxf_path = "''layer0.dxf''"
             and e = "OSError ''denied''" and ?fmt3.0 = "format_f 3"
             and output_target_path = "''out/machine_layer0.dxf''"]
  by (simp add: broken_env_def quiet_env_def)

subsection \<open>The simplified drawing\<close>

lemma rounded_line_seg_of:
  "rounded_line round6 (seg_of ((x1, y1), (x2, y2)))
     = Inr (Add_line [round6 x1, round6 y1] [round6 x2, round6 y2])"
  by (simp add: rounded_line_def subscript_def)

lemma add_rounded_lines_seg_of:
  "add_rounded_lines round6 (map seg_of ts) msp =
     Inr (msp @ map (\<lambda>((x1, y1), (x2, y2)).
                       Add_line [round6 x1, round6 y1] [round6 x2, round6 y2]) ts)"
proof (induction ts arbitrary: msp)
  case Nil
  show ?case by simp
next
  case (Cons t ts)
  obtain x1 y1 x2 y2 where t: "t = ((x1, y1), (x2, y2))" by (cases t) auto
  show ?case
    using Cons.IH
    by (simp only: t list.map add_rounded_lines.simps rounded_line_seg_of sum.case prod.case
          append_assoc append.simps)
qed

text \<open>
  C5.  For every list of segments, the document that
  \<open>create_simplified_dxf_for_laser\<close> builds holds exactly one LINE per segment, in
  input order, from \<open>(round(x1, 6), round(y1, 6))\<close> to
  \<open>(round(x2, 6), round(y2, 6))\<close>, and nothing else; when saving does not raise,
  this document is saved to the output path.
\<close>

theorem simplified_dxf_holds_rounded_lines:
  "add_rounded_lines round6 (map seg_of ts) []
     = Inr (map (\<lambda>((x1, y1), (x2, y2)).
                   Add_line [round6 x1, round6 y1] [round6 x2, round6 y2]) ts)
   \<and> (saveas_raises env output_dxf_path = None \<longrightarrow>
        create_simplified_dxf_for_laser env round6 (map seg_of ts) output_dxf_path
          = ([SaveAs output_dxf_path
                (map (\<lambda>((x1, y1), (x2, y2)).
                        Add_line [round6 x1, round6 y1] [round6 x2, round6 y2]) ts)],
             Inr ()))"
  by (simp add: create_simplified_dxf_for_laser_def add_rounded_lines_seg_of)

theorem simplified_dxf_holds_rounded_lines_witness:
  "create_simplified_dxf_for_laser (quiet_env (\<lambda>p. Inr []) (\<lambda>p. Inr [])) (py_round 6)
     (map seg_of sample_segments) ''clean_layer0.dxf''
   = ([SaveAs ''clean_layer0.dxf''
         [Add_line [0, 1 / 16] [5 / 2, - (333333 / 1000000)],
          Add_line [666667 / 1000000, 3] [- 4, 1 / 2]]], Inr ())"
proof -
  have r: "py_round 6 0 = 0" "py_round 6 (1 / 16) = 1 / 16" "py_round 6 (5 / 2) = 5 / 2"
          "py_round 6 (- (1 / 3)) = - (333333 / 1000000)"
          "py_round 6 (2 / 3) = 666667 / 1000000" "py_round 6 3 = 3"
          "py_round 6 (- 4) = - 4" "py_round 6 (1 / 2) = 1 / 2"
    by code_simp+
  have t: "create_simplified_dxf_for_laser (quiet_env (\<lambda>p. Inr []) (\<lambda>p. Inr [])) (py_round 6)
             (map seg_of sample_segments) ''clean_layer0.dxf''
           = ([SaveAs ''clean_layer0.dxf''
                 (map (\<lambda>((x1, y1), (x2, y2)).
                         Add_line [py_round 6 x1, py_round 6 y1] [py_round 6 x2, py_round 6 y2])
                      sample_segments)], Inr ())"
    using simplified_dxf_holds_rounded_lines
            [where env = "quiet_env (\<lambda>p. Inr []) (\<lambda>p. Inr [])" and ?round6.0 = "py_round 6"
               and ts = sample_segments and output_dxf_path = "''clean_layer0.dxf''"]
    by (simp add: quiet_env_def)
  show ?thesis unfolding t by (simp add: sample_segments_def r)
qed

section \<open>Properties of the layer export\<close>

lemma hatch_lines_append:
  "hatch_lines coords (is @ js) msp =
     (case hatch_lines coords is msp of Inl e \<Rightarrow> Inl e | Inr m \<Rightarrow> hatch_lines coords js m)"
  by (induction "is" arbitrary: msp) (simp_all split: sum.splits prod.splits)

lemma take2_drop:
  "2 * k + 1 < length coords \<Longrightarrow>
     take 2 (drop (2 * k) coords) = [coords ! (2 * k), coords ! (2 * k + 1)]"
proof -
  assume h: "2 * k + 1 < length coords"
  then have "drop (2 * k) coords = coords ! (2 * k) # drop (Suc (2 * k)) coords"
    by (simp add: Cons_nth_drop_Suc)
  moreover from h have "drop (Suc (2 * k)) coords
      = coords ! (Suc (2 * k)) # drop (Suc (Suc (2 * k))) coords"
    by (simp add: Cons_nth_drop_Suc)
  ultimately show ?thesis by (simp add: numeral_2_eq_2)
qed

lemma take2_drop_last:
  "2 * k + 1 = length coords \<Longrightarrow> take 2 (drop (2 * k) coords) = [coords ! (2 * k)]"
proof -
  assume h: "2 * k + 1 = length coords"
  then have lt: "2 * k < length coords" by linarith
  then have "drop (2 * k) coords = coords ! (2 * k) # drop (Suc (2 * k)) coords"
    by (simp add: Cons_nth_drop_Suc)
  moreover from h have "length coords \<le> Suc (2 * k)" by linarith
  then have "drop (Suc (2 * k)) coords = []" by simp
  ultimately show ?thesis by simp
qed

lemma hatch_lines_pairs:
  "\<forall>k \<in> set ks. 2 * k + 1 < length coords \<Longrightarrow>
     hatch_lines coords (map (\<lambda>k. 2 * k) ks) msp =
       Inr (msp @ map (\<lambda>k. Add_line (coords ! (2 * k)) (coords ! (2 * k + 1))) ks)"
proof (induction ks arbitrary: msp)
  case Nil
  show ?case by simp
next
  case (Cons k ks)
  then have t: "take 2 (drop (2 * k) coords) = [coords ! (2 * k), coords ! (2 * k + 1)]"
    by (simp add: take2_drop)
  from Cons show ?case
    by (simp only: list.map hatch_lines.simps t unpack2.simps sum.case prod.case) simp
qed

lemma hatch_lines_even:
  assumes "even (length coords)"
  shows "hatch_lines coords (range2 (length coords)) msp =
           Inr (msp @ map (\<lambda>k. Add_line (coords ! (2 * k)) (coords ! (2 * k + 1)))
                          [0 ..< length coords div 2])"
proof -
  from assms have d: "(length coords + 1) div 2 = length coords div 2" by presburger
  have "\<forall>k \<in> set [0 ..< length coords div 2]. 2 * k + 1 < length coords"
    using assms by (auto elim!: evenE)
  then show ?thesis unfolding range2_def d by (rule hatch_lines_pairs)
qed

lemma hatch_lines_odd:
  assumes "odd (length coords)"
  shows "hatch_lines coords (range2 (length coords)) msp =
           Inl (ValueError ''not enough values to unpack (expected 2, got 1)'')"
proof -
  from assms have d: "(length coords + 1) div 2 = Suc (length coords div 2)" by presburger
  from assms have l: "2 * (length coords div 2) + 1 = length coords" by presburger
  have p: "\<forall>k \<in> set [0 ..< length coords div 2]. 2 * k + 1 < length coords"
    using assms by (auto elim!: oddE)
  have r: "range2 (length coords)
             = map (\<lambda>k. 2 * k) [0 ..< length coords div 2] @ [2 * (length coords div 2)]"
    unfolding range2_def d by simp
  show ?thesis
    unfolding r hatch_lines_append hatch_lines_pairs [OF p]
    by (simp add: take2_drop_last [OF l])
qed

lemma hatch_geometries_even:
  "\<forall>coords \<in> set gs. even (length coords) \<Longrightarrow>
     hatch_geometries gs msp =
       Inr (msp @ concat (map (\<lambda>coords. map (\<lambda>k. Add_line (coords ! (2 * k)) (coords ! (2 * k + 1)))
                                             [0 ..< length coords div 2]) gs))"
  by (induction gs arbitrary: msp) (simp_all add: hatch_lines_even)

lemma hatch_geometries_odd:
  "\<exists>coords \<in> set gs. odd (length coords) \<Longrightarrow>
     hatch_geometries gs msp = Inl (ValueError ''not enough values to unpack (expected 2, got 1)'')"
proof (induction gs arbitrary: msp)
  case Nil
  then show ?case by simp
next
  case (Cons g gs)
  show ?case
  proof (cases "odd (length g)")
    case True
    then show ?thesis by (simp add: hatch_lines_odd)
  next
    case False
    with Cons.prems have "\<exists>coords \<in> set gs. odd (length coords)" by auto
    with False Cons.IH show ?thesis by (simp add: hatch_lines_even)
  qed
qed

text \<open>
  C9.  \<open>export_layer_to_dxf\<close> unpacks the coordinates of a hatch geometry two at a
  time.  When their number is even the loop does not fail and adds exactly
  \<open>len(coords) / 2\<close> lines, the \<open>k\<close>-th from coordinate \<open>2k\<close> to coordinate
  \<open>2k + 1\<close>; when it is odd the last unpacking raises \<open>ValueError\<close>.  So a layer
  whose hatch geometries are all even is saved with these lines between its
  polylines and its circles, and a layer with an odd hatch geometry is not saved:
  the exception leaves the function.
\<close>

theorem hatch_coordinates_are_unpacked_in_pairs:
  "(even (length coords) \<longrightarrow>
      hatch_lines coords (range2 (length coords)) msp =
        Inr (msp @ map (\<lambda>k. Add_line (coords ! (2 * k)) (coords ! (2 * k + 1)))
                       [0 ..< length coords div 2]))
   \<and> (odd (length coords) \<longrightarrow>
      hatch_lines coords (range2 (length coords)) msp =
        Inl (ValueError ''not enough values to unpack (expected 2, got 1)''))
   \<and> ((\<forall>coords \<in> set (getHatchGeometry layer). even (length coords))
       \<and> saveas_raises env path = None \<longrightarrow>
      export_layer_to_dxf env layer path =
        ([SaveAs path
            (map (\<lambda>coords. Add_lwpolyline coords True) (getContourGeometry layer)
             @ concat (map (\<lambda>coords. map (\<lambda>k. Add_line (coords ! (2 * k)) (coords ! (2 * k + 1)))
                                          [0 ..< length coords div 2])
                           (getHatchGeometry layer))
             @ concat (map (map (\<lambda>p. Add_circle p (2 / 100))) (getPointsGeometry layer)))],
         Inr ()))
   \<and> ((\<exists>coords \<in> set (getHatchGeometry layer). odd (length coords)) \<longrightarrow>
      export_layer_to_dxf env layer path =
        ([], Inl (ValueError ''not enough values to unpack (expected 2, got 1)'')))"
  by (simp add: hatch_lines_even hatch_lines_odd export_layer_to_dxf_def Let_def
        hatch_geometries_even hatch_geometries_odd)

theorem hatch_coordinates_are_unpacked_in_pairs_witness:
  "export_layer_to_dxf empty_env sample_layer ''part_layer0.dxf''
     = ([SaveAs ''part_layer0.dxf''
           [Add_lwpolyline [[0, 0], [1, 0], [1, 1]] True,
            Add_line [0, 0] [1, 1], Add_line [0, 1 / 2] [1, 1 / 2],
            Add_circle [1 / 2, 1 / 2] (2 / 100)]], Inr ())
   \<and> export_layer_to_dxf empty_env odd_layer ''part_layer0.dxf''
     = ([], Inl (ValueError ''not enough values to unpack (expected 2, got 1)''))"
proof -
  have a: "getHatchGeometry sample_layer = [[[0, 0], [1, 1], [0, 1 / 2], [1, 1 / 2]]]"
          "getContourGeometry sample_layer = [[[0, 0], [1, 0], [1, 1]]]"
          "getPointsGeometry sample_layer = [[[1 / 2, 1 / 2]]]"
          "getHatchGeometry odd_layer = [[[0, 0], [1, 1], [0, 1 / 2]]]"
    by (simp_all add: sample_layer_def odd_layer_def getHatchGeometry_def getContourGeometry_def
          getPointsGeometry_def)
  note t = hatch_coordinates_are_unpacked_in_pairs
             [where env = empty_env and path = "''part_layer0.dxf''"
                and coords = "[] :: rat point list" and msp = "[] :: rat msp_call list"]
  have b: "export_layer_to_dxf empty_env sample_layer ''part_layer0.dxf''
     = ([SaveAs ''part_layer0.dxf''
           [Add_lwpolyline [[0, 0], [1, 0], [1, 1]] True,
            Add_line [0, 0] [1, 1], Add_line [0, 1 / 2] [1, 1 / 2],
            Add_circle [1 / 2, 1 / 2] (2 / 100)]], Inr ())"
    using t [where layer = sample_layer] by (simp add: a empty_env_def quiet_env_def upt_rec)
  have c: "export_layer_to_dxf empty_env odd_layer ''part_layer0.dxf''
     = ([], Inl (ValueError ''not enough values to unpack (expected 2, got 1)''))"
    using t [where layer = odd_layer] by (simp add: a)
  from b c show ?thesis by blast
qed

section \<open>Properties of the parameter files\<close>

lemma length_layer_files: "length (layer_files names) = length (filter is_layer_file names)"
  by (simp add: layer_files_def)

lemma layer_files_Nil: "(layer_files names = []) = (filter is_layer_file names = [])"
  using length_layer_files [of names] by (metis length_0_conv)

lemma writes_concat: "writes f chunks = f @ concat chunks"
  by (induction chunks arbitrary: f) (simp_all add: writes_def)

lemma write_parameters_acc:
  "fold (\<lambda>(key, value) f. writes f [''['' @ key @ '']'' @ NL, str_value str_float value @ NL])
        params acc
     = acc @ unlines (concat (map (\<lambda>(key, value). [''['' @ key @ '']'', str_value str_float value])
                                  params))"
  by (induction params arbitrary: acc) (auto simp: writes_concat unlines_def)

lemma write_parameters_unlines:
  "write_parameters str_float params
     = unlines (concat (map (\<lambda>(key, value). [''['' @ key @ '']'', str_value str_float value])
                            params))"
  unfolding write_parameters_def write_parameters_acc by simp

text \<open>
  C7.  When the input folder exists and holds at least one name that, lowercased,
  ends with \<open>.dxf\<close> or \<open>.txt\<close>, and the output can be created,
  \<open>generate_manufacturing_parameters_file\<close> writes one text file: for each of its
  22 keys, in the order of the table, a line \<open>[KEY]\<close> and a line with the value.
  The keys are fixed and distinct, and the value of \<open>NUMBER OF LAYERS\<close> is the
  number of such names.  When the folder does not exist, or holds no such name,
  the function prints one message and returns: no directory is made and no file
  is written.
\<close>

theorem manufacturing_parameters_file_contents:
  "(path_exists env input_dxf_folder \<and> listdir env input_dxf_folder = Inr names
      \<and> filter is_layer_file names \<noteq> []
      \<and> mkdir_raises env output_folder = None
      \<and> open_raises env (path_join output_folder (part_name @ ''_auto_machine_parameters.txt''))
          = None
    \<longrightarrow> generate_manufacturing_parameters_file env str_float input_dxf_folder output_folder
          part_name layer_thickness
        = ([Mkdir output_folder,
            WriteFile (path_join output_folder (part_name @ ''_auto_machine_parameters.txt''))
              (unlines (concat (map (\<lambda>(key, value). [''['' @ key @ '']'', str_value str_float value])
                  (final_parameters_of part_name (int (length (filter is_layer_file names)))
                     layer_thickness)))),
            Print (NL @ ''Successfully generated manufacturing parameters file: ''
                   @ path_join output_folder (part_name @ ''_auto_machine_parameters.txt''))],
           Inr ()))
   \<and> map fst (final_parameters_of part_name n layer_thickness)
       = [''PART NAME'', ''MINX'', ''MAXX'', ''MINY'', ''MAXY'', ''NUMBER OF LAYERS'',
          ''LAYER THICKNESS'', ''HATCH POWER 1'', ''HATCH SPEED 1'', ''VBPP1'', ''MAGNIFICATION 1'',
          ''HATCH POWER 2'', ''HATCH SPEED 2'', ''VBPP2'', ''MAGNIFICATION 2'',
          ''HATCH POWER 3'', ''HATCH SPEED 3'', ''VBPP3'', ''MAGNIFICATION 3'',
          ''NUMBER OF PASSES'', ''CONTOUR POWER'', ''CONTOUR SPEED'']
   \<and> length (final_parameters_of part_name n layer_thickness) = 22
   \<and> distinct (map fst (final_parameters_of part_name n layer_thickness))
   \<and> map_of (final_parameters_of part_name n layer_thickness) ''NUMBER OF LAYERS'' = Some (PInt n)
   \<and> (\<not> path_exists env input_dxf_folder
    \<longrightarrow> generate_manufacturing_parameters_file env str_float input_dxf_folder output_folder
          part_name layer_thickness
        = ([Print (''Error: Input DXF folder not found at '' @ quoted input_dxf_folder
                   @ ''. Cannot generate parameters file.'')], Inr ()))
   \<and> (path_exists env input_dxf_folder \<and> listdir env input_dxf_folder = Inr names
      \<and> filter is_layer_file names = []
    \<longrightarrow> generate_manufacturing_parameters_file env str_float input_dxf_folder output_folder
          part_name layer_thickness
        = ([Print (''No DXF or TXT files found in '' @ quoted input_dxf_folder
                   @ ''. Cannot generate parameters file.'')], Inr ()))"
proof -
  have k: "map fst (final_parameters_of part_name n layer_thickness)
       = [''PART NAME'', ''MINX'', ''MAXX'', ''MINY'', ''MAXY'', ''NUMBER OF LAYERS'',
          ''LAYER THICKNESS'', ''HATCH POWER 1'', ''HATCH SPEED 1'', ''VBPP1'', ''MAGNIFICATION 1'',
          ''HATCH POWER 2'', ''HATCH SPEED 2'', ''VBPP2'', ''MAGNIFICATION 2'',
          ''HATCH POWER 3'', ''HATCH SPEED 3'', ''VBPP3'', ''MAGNIFICATION 3'',
          ''NUMBER OF PASSES'', ''CONTOUR POWER'', ''CONTOUR SPEED'']"
    by (simp add: final_parameters_of_def)
  have l: "length (final_parameters_of part_name n layer_thickness) = 22"
    by (simp add: final_parameters_of_def)
  have d: "distinct (map fst (final_parameters_of part_name n layer_thickness))"
    unfolding k by simp
  have m: "map_of (final_parameters_of part_name n layer_thickness) ''NUMBER OF LAYERS''
             = Some (PInt n)"
    by (simp add: final_parameters_of_def)
  have r: "generate_manufacturing_parameters_file env str_float input_dxf_folder output_folder
          part_name layer_thickness
        = ([Mkdir output_folder,
            WriteFile (path_join output_folder (part_name @ ''_auto_machine_parameters.txt''))
              (unlines (concat (map (\<lambda>(key, value). [''['' @ key @ '']'', str_value str_float value])
                  (final_parameters_of part_name (int (length (filter is_layer_file names)))
                     layer_thickness)))),
            Print (NL @ ''Successfully generated manufacturing parameters file: ''
                   @ path_join output_folder (part_name @ ''_auto_machine_parameters.txt''))],
           Inr ())"
    if "path_exists env input_dxf_folder" "listdir env input_dxf_folder = Inr names"
       "filter is_layer_file names \<noteq> []" "mkdir_raises env output_folder = None"
       "open_raises env (path_join output_folder (part_name @ ''_auto_machine_parameters.txt''))
          = None"
    using that
    by (simp add: generate_manufacturing_parameters_file_def Let_def layer_files_Nil
          length_layer_files write_parameters_unlines)
  have e: "generate_manufacturing_parameters_file env str_float input_dxf_folder output_folder
          part_name layer_thickness
        = ([Print (''No DXF or TXT files found in '' @ quoted input_dxf_folder
                   @ ''. Cannot generate parameters file.'')], Inr ())"
    if "path_exists env input_dxf_folder" "listdir env input_dxf_folder = Inr names"
       "filter is_layer_file names = []"
    using that
    by (simp add: generate_manufacturing_parameters_file_def Let_def layer_files_Nil)
  have x: "generate_manufacturing_parameters_file env str_float input_dxf_folder output_folder
          part_name layer_thickness
        = ([Print (''Error: Input DXF folder not found at '' @ quoted input_dxf_folder
                   @ ''. Cannot generate parameters file.'')], Inr ())"
    if "\<not> path_exists env input_dxf_folder"
    using that by (simp add: generate_manufacturing_parameters_file_def)
  from k l d m r e x show ?thesis by blast
qed

theorem manufacturing_parameters_file_contents_witness:
  "generate_manufacturing_parameters_file sample_env str_decimal ''dxfs/part/txt_machine''
     ''dxfs/part'' ''part'' (3 / 100)
   = ([Mkdir ''dxfs/part'',
       WriteFile ''dxfs/part/part_auto_machine_parameters.txt''
         (unlines [''[PART NAME]'', ''part'', ''[MINX]'', ''-7.9'', ''[MAXX]'', ''7.9'',
                   ''[MINY]'', ''-7.9'', ''[MAXY]'', ''7.9'', ''[NUMBER OF LAYERS]'', ''2'',
                   ''[LAYER THICKNESS]'', ''0.03'', ''[HATCH POWER 1]'', ''40'',
                   ''[HATCH SPEED 1]'', ''170'', ''[VBPP1]'', ''1'', ''[MAGNIFICATION 1]'', ''1.0'',
                   ''[HATCH POWER 2]'', ''42'', ''[HATCH SPEED 2]'', ''1202'', ''[VBPP2]'', ''2'',
                   ''[MAGNIFICATION 2]'', ''1.0'', ''[HATCH POWER 3]'', ''43'',
                   ''[HATCH SPEED 3]'', ''1203'', ''[VBPP3]'', ''3'', ''[MAGNIFICATION 3]'', ''1.0'',
                   ''[NUMBER OF PASSES]'', ''1'', ''[CONTOUR POWER]'', ''11'',
                   ''[CONTOUR SPEED]'', ''1001'']),
       Print (NL @ ''Successfully generated manufacturing parameters file: ''
              @ ''dxfs/part/part_auto_machine_parameters.txt'')],
      Inr ())"
proof -
  have i: "is_layer_file ''a_layer0.dxf''" "\<not> is_layer_file ''notes.md''"
          "is_layer_file ''A_LAYER1.DXF''"
    by code_simp+
  have v: "str_decimal (- (79 / 10)) = ''-7.9''" "str_decimal (79 / 10) = ''7.9''"
          "str_decimal (3 / 100) = ''0.03''" "str_decimal 1 = ''1.0''"
          "str_int 2 = ''2''" "str_int 40 = ''40''" "str_int 170 = ''170''" "str_int 1 = ''1''"
          "str_int 42 = ''42''" "str_int 1202 = ''1202''" "str_int 43 = ''43''"
          "str_int 1203 = ''1203''" "str_int 3 = ''3''" "str_int 11 = ''11''"
          "str_int 1001 = ''1001''"
    by code_simp+
  show ?thesis
    using manufacturing_parameters_file_contents
            [where env = sample_env and input_dxf_folder = "''dxfs/part/txt_machine''"
               and names = "[''a_layer0.dxf'', ''notes.md'', ''A_LAYER1.DXF'']"
               and output_folder = "''dxfs/part''" and part_name = "''part''"
               and str_float = str_decimal and layer_thickness = "3 / 100" and n = 2,
             THEN conjunct1]
    by (simp add: i v sample_env_def quiet_env_def final_parameters_of_def unlines_def
          path_join_def)
qed

subsection \<open>\<open>generate_auto_parameters_file\<close>\<close>

lemma vertex_locations_exn: "vertex_locations vs cur = Inl e \<Longrightarrow> is_Exception e"
  by (induction vs cur rule: vertex_locations.induct)
     (auto simp: dxf_location_def split: sum.splits)

lemma polyline_loop_mp_exn: "polyline_loop_mp es acc = (s, Some e) \<Longrightarrow> is_Exception e"
  by (induction es acc rule: polyline_loop_mp.induct)
     (auto split: sum.splits dest: vertex_locations_exn)

lemma get_dxf_line_segments_returns:
  assumes "\<forall>p e. readfile env p = Inl e \<longrightarrow> is_Exception e"
  shows "\<exists>segs. get_dxf_line_segments env dxf_path = Inr segs"
proof (cases "readfile env dxf_path")
  case (Inl e)
  with assms have "is_Exception e" by blast
  with Inl show ?thesis by (simp add: get_dxf_line_segments_def)
next
  case (Inr msp)
  obtain s r where p: "polyline_loop_mp (query ''POLYLINE'' msp)
                  (fold lwpolyline_step_mp (query ''LWPOLYLINE'' msp)
                     (fold line_step (query ''LINE'' msp) [])) = (s, r)"
    by (cases "polyline_loop_mp (query ''POLYLINE'' msp)
                  (fold lwpolyline_step_mp (query ''LWPOLYLINE'' msp)
                     (fold line_step (query ''LINE'' msp) []))") auto
  show ?thesis
  proof (cases r)
    case None
    with Inr p show ?thesis by (simp add: get_dxf_line_segments_def)
  next
    case (Some e)
    with p have "is_Exception e" by (auto dest: polyline_loop_mp_exn)
    with Inr p Some show ?thesis by (simp add: get_dxf_line_segments_def)
  qed
qed

lemma analyze_layers_None:
  assumes "\<forall>p e. readfile env p = Inl e \<longrightarrow> is_Exception e"
  shows "analyze_layers env folder files = None"
proof (induction files)
  case Nil
  show ?case by simp
next
  case (Cons f fs)
  from get_dxf_line_segments_returns [OF assms, of "os_path_join folder f"]
  obtain segs where "get_dxf_line_segments env (os_path_join folder f) = Inr segs" by blast
  with Cons show ?case by simp
qed

lemma auto_parameters_written:
  assumes "WriteFile p c \<in> set (fst (generate_auto_parameters_file env str_float input_dxf_folder
                                         output_file_path layer_thickness part_name
                                         machine_settings))"
  shows "\<exists>names. listdir env input_dxf_folder = Inr names
           \<and> c = write_parameters str_float
                   (auto_final_parameters input_dxf_folder part_name
                      (int (length (filter is_layer_file names))) layer_thickness
                      machine_settings)"
proof (cases "listdir env input_dxf_folder")
  case (Inl e)
  with assms show ?thesis
    by (simp add: generate_auto_parameters_file_def split: if_splits)
next
  case (Inr names)
  with assms have "c = write_parameters str_float
                   (auto_final_parameters input_dxf_folder part_name
                      (int (length (filter is_layer_file names))) layer_thickness
                      machine_settings)"
    by (auto simp: generate_auto_parameters_file_def Let_def length_layer_files
             split: if_splits option.splits)
  with Inr show ?thesis by blast
qed

lemma auto_final_parameters_name:
  "effective_part_name folder1 pn1 = effective_part_name folder2 pn2 \<Longrightarrow>
     auto_final_parameters folder1 pn1 n th ms = auto_final_parameters folder2 pn2 n th ms"
  by (simp add: auto_final_parameters_def effective_part_name_def)

lemma map_of_dict_set: "map_of (dict_set d key value) = (map_of d)(key \<mapsto> value)"
  by (induction d key "value" rule: dict_set.induct) (auto simp: fun_eq_iff)

lemma map_of_fold_dict_set:
  "k \<notin> fst ` set settings \<Longrightarrow>
     map_of (fold (\<lambda>(key, value) d. dict_set d key value) settings d) k = map_of d k"
  by (induction settings arbitrary: d) (auto simp: map_of_dict_set)

lemma fold_or_keep: "(if settings = [] then d else fold f settings d) = fold f settings d"
  by (cases settings) simp_all

lemma auto_final_parameters_Some:
  "auto_final_parameters folder pn n th (Some settings)
     = fold (\<lambda>(key, value) d. dict_set d key value) settings
         (auto_final_parameters folder pn n th None)"
  unfolding auto_final_parameters_def Let_def option.case
  by (simp only: fold_or_keep)

lemma auto_final_parameters_lookup:
  assumes "\<forall>settings. machine_settings = Some settings \<longrightarrow> k \<notin> fst ` set settings"
  shows "map_of (auto_final_parameters folder pn n th machine_settings) k
           = map_of (auto_final_parameters folder pn n th None) k"
proof (cases machine_settings)
  case None
  then show ?thesis by simp
next
  case (Some settings)
  with assms have "k \<notin> fst ` set settings" by blast
  then show ?thesis
    unfolding Some auto_final_parameters_Some by (rule map_of_fold_dict_set)
qed

lemma auto_final_parameters_defaults:
  "map_of (auto_final_parameters folder pn n th None) ''MINX'' = Some (PFloat (- (79 / 10)))"
  "map_of (auto_final_parameters folder pn n th None) ''MAXX'' = Some (PFloat (79 / 10))"
  "map_of (auto_final_parameters folder pn n th None) ''MINY'' = Some (PFloat (- (79 / 10)))"
  "map_of (auto_final_parameters folder pn n th None) ''MAXY'' = Some (PFloat (79 / 10))"
  by (simp_all add: auto_final_parameters_def)

lemma auto_parameters_success:
  assumes "path_exists env input_dxf_folder" and "listdir env input_dxf_folder = Inr names"
    and "filter is_layer_file names \<noteq> []"
    and "\<forall>p e. readfile env p = Inl e \<longrightarrow> is_Exception e"
    and "makedirs_raises env (dirname output_file_path) = None"
    and "open_raises env output_file_path = None"
  shows "generate_auto_parameters_file env str_float input_dxf_folder output_file_path
           layer_thickness part_name machine_settings
         = ([Print (''Analyzing '' @ str_int (int (length (filter is_layer_file names)))
                    @ '' DXF/TXT layers for bounding box...''),
             Print (''Warning: No valid geometry found in DXF/TXT files. ''
                    @ ''Bounding box defaulted to (0,0,0,0).'')]
            @ (if dirname output_file_path \<noteq> [] \<and> \<not> path_exists env (dirname output_file_path)
               then [Makedirs (dirname output_file_path)] else [])
            @ [WriteFile output_file_path
                 (write_parameters str_float
                    (auto_final_parameters input_dxf_folder part_name
                       (int (length (filter is_layer_file names))) layer_thickness
                       machine_settings)),
               Print (NL @ ''Successfully generated manufacturing parameters file: ''
                      @ output_file_path)],
            Inr ())"
  using assms(1,2,3,5,6) analyze_layers_None [OF assms(4)]
  by (simp add: generate_auto_parameters_file_def Let_def layer_files_Nil length_layer_files)

lemma auto_parameters_two_runs:
  assumes w1: "WriteFile p1 c1 \<in> set (fst (generate_auto_parameters_file env1 str_float folder1
                    out1 layer_thickness part_name1 machine_settings))"
    and w2: "WriteFile p2 c2 \<in> set (fst (generate_auto_parameters_file env2 str_float folder2
                    out2 layer_thickness part_name2 machine_settings))"
    and l1: "listdir env1 folder1 = Inr names1" and l2: "listdir env2 folder2 = Inr names2"
    and n: "length (filter is_layer_file names1) = length (filter is_layer_file names2)"
    and e: "effective_part_name folder1 part_name1 = effective_part_name folder2 part_name2"
  shows "c1 = c2"
proof -
  from auto_parameters_written [OF w1] l1
  have 1: "c1 = write_parameters str_float
                  (auto_final_parameters folder1 part_name1
                     (int (length (filter is_layer_file names1))) layer_thickness
                     machine_settings)"
    by auto
  from auto_parameters_written [OF w2] l2
  have 2: "c2 = write_parameters str_float
                  (auto_final_parameters folder2 part_name2
                     (int (length (filter is_layer_file names2))) layer_thickness
                     machine_settings)"
    by auto
  show ?thesis
    unfolding 1 2 n auto_final_parameters_name [OF e] by (rule refl)
qed

lemma auto_parameters_success_written:
  assumes "path_exists env input_dxf_folder" and "listdir env input_dxf_folder = Inr names"
    and "filter is_layer_file names \<noteq> []"
    and "\<forall>p e. readfile env p = Inl e \<longrightarrow> is_Exception e"
    and "makedirs_raises env (dirname output_file_path) = None"
    and "open_raises env output_file_path = None"
  shows "WriteFile output_file_path
           (write_parameters str_float
              (auto_final_parameters input_dxf_folder part_name
                 (int (length (filter is_layer_file names))) layer_thickness machine_settings))
         \<in> set (fst (generate_auto_parameters_file env str_float input_dxf_folder
                        output_file_path layer_thickness part_name machine_settings))"
  unfolding auto_parameters_success [OF assms] by simp

text \<open>
  C8, as the code has it.  The text that \<open>generate_auto_parameters_file\<close> writes
  depends only on the part name it uses (the argument, or the base name of the
  input folder when the argument is \<open>None\<close>), the layer thickness, the
  overrides of \<open>machine_settings\<close> and the number of matching names in the input
  folder: two runs that agree on these write the same text, whatever the files
  hold and whether or not they can be read.  Such a file is written whenever the
  folder exists and holds a matching name, no read raises outside \<open>Exception\<close>
  and the output can be created.  \<open>MINX\<close>, \<open>MAXX\<close>, \<open>MINY\<close>, \<open>MAXY\<close> are
  \<open>-7.9\<close>, \<open>7.9\<close>, \<open>-7.9\<close>, \<open>7.9\<close> unless \<open>machine_settings\<close> has these
  keys: the bounding box of the segments is never computed.
\<close>

theorem auto_parameters_depend_on_name_thickness_settings_count:
  "(WriteFile p1 c1 \<in> set (fst (generate_auto_parameters_file env1 str_float folder1 out1
                                   layer_thickness part_name1 machine_settings))
      \<and> WriteFile p2 c2 \<in> set (fst (generate_auto_parameters_file env2 str_float folder2 out2
                                   layer_thickness part_name2 machine_settings))
      \<and> listdir env1 folder1 = Inr names1 \<and> listdir env2 folder2 = Inr names2
      \<and> length (filter is_layer_file names1) = length (filter is_layer_file names2)
      \<and> effective_part_name folder1 part_name1 = effective_part_name folder2 part_name2
    \<longrightarrow> c1 = c2)
   \<and> (path_exists env1 folder1 \<and> listdir env1 folder1 = Inr names1
      \<and> filter is_layer_file names1 \<noteq> []
      \<and> (\<forall>p e. readfile env1 p = Inl e \<longrightarrow> is_Exception e)
      \<and> makedirs_raises env1 (dirname out1) = None \<and> open_raises env1 out1 = None
    \<longrightarrow> WriteFile out1
          (write_parameters str_float
             (auto_final_parameters folder1 part_name1
                (int (length (filter is_layer_file names1))) layer_thickness machine_settings))
        \<in> set (fst (generate_auto_parameters_file env1 str_float folder1 out1
                       layer_thickness part_name1 machine_settings)))
   \<and> ((\<forall>settings. machine_settings = Some settings \<longrightarrow>
          ''MINX'' \<notin> fst ` set settings \<and> ''MAXX'' \<notin> fst ` set settings
          \<and> ''MINY'' \<notin> fst ` set settings \<and> ''MAXY'' \<notin> fst ` set settings)
    \<longrightarrow> map_of (auto_final_parameters folder1 part_name1 n layer_thickness machine_settings)
          ''MINX'' = Some (PFloat (- (79 / 10)))
      \<and> map_of (auto_final_parameters folder1 part_name1 n layer_thickness machine_settings)
          ''MAXX'' = Some (PFloat (79 / 10))
      \<and> map_of (auto_final_parameters folder1 part_name1 n layer_thickness machine_settings)
          ''MINY'' = Some (PFloat (- (79 / 10)))
      \<and> map_of (auto_final_parameters folder1 part_name1 n layer_thickness machine_settings)
          ''MAXY'' = Some (PFloat (79 / 10)))"
proof (intro conjI impI)
  assume h: "WriteFile p1 c1 \<in> set (fst (generate_auto_parameters_file env1 str_float folder1 out1
                                   layer_thickness part_name1 machine_settings))
      \<and> WriteFile p2 c2 \<in> set (fst (generate_auto_parameters_file env2 str_float folder2 out2
                                   layer_thickness part_name2 machine_settings))
      \<and> listdir env1 folder1 = Inr names1 \<and> listdir env2 folder2 = Inr names2
      \<and> length (filter is_layer_file names1) = length (filter is_layer_file names2)
      \<and> effective_part_name folder1 part_name1 = effective_part_name folder2 part_name2"
  then show "c1 = c2" by (elim conjE) (rule auto_parameters_two_runs)
next
  assume "path_exists env1 folder1 \<and> listdir env1 folder1 = Inr names1
      \<and> filter is_layer_file names1 \<noteq> []
      \<and> (\<forall>p e. readfile env1 p = Inl e \<longrightarrow> is_Exception e)
      \<and> makedirs_raises env1 (dirname out1) = None \<and> open_raises env1 out1 = None"
  then show "WriteFile out1
          (write_parameters str_float
             (auto_final_parameters folder1 part_name1
                (int (length (filter is_layer_file names1))) layer_thickness machine_settings))
        \<in> set (fst (generate_auto_parameters_file env1 str_float folder1 out1
                       layer_thickness part_name1 machine_settings))"
    by (elim conjE) (rule auto_parameters_success_written)
next
  assume a: "\<forall>settings. machine_settings = Some settings \<longrightarrow>
          ''MINX'' \<notin> fst ` set settings \<and> ''MAXX'' \<notin> fst ` set settings
          \<and> ''MINY'' \<notin> fst ` set settings \<and> ''MAXY'' \<notin> fst ` set settings"
  then have b: "\<forall>settings. machine_settings = Some settings \<longrightarrow> ''MINX'' \<notin> fst ` set settings"
               "\<forall>settings. machine_settings = Some settings \<longrightarrow> ''MAXX'' \<notin> fst ` set settings"
               "\<forall>settings. machine_settings = Some settings \<longrightarrow> ''MINY'' \<notin> fst ` set settings"
               "\<forall>settings. machine_settings = Some settings \<longrightarrow> ''MAXY'' \<notin> fst ` set settings"
    by blast+
  show "map_of (auto_final_parameters folder1 part_name1 n layer_thickness machine_settings)
          ''MINX'' = Some (PFloat (- (79 / 10)))"
    by (rule trans [OF auto_final_parameters_lookup [OF b(1)] auto_final_parameters_defaults(1)])
  show "map_of (auto_final_parameters folder1 part_name1 n layer_thickness machine_settings)
          ''MAXX'' = Some (PFloat (79 / 10))"
    by (rule trans [OF auto_final_parameters_lookup [OF b(2)] auto_final_parameters_defaults(2)])
  show "map_of (auto_final_parameters folder1 part_name1 n layer_thickness machine_settings)
          ''MINY'' = Some (PFloat (- (79 / 10)))"
    by (rule trans [OF auto_final_parameters_lookup [OF b(3)] auto_final_parameters_defaults(3)])
  show "map_of (auto_final_parameters folder1 part_name1 n layer_thickness machine_settings)
          ''MAXY'' = Some (PFloat (79 / 10))"
    by (rule trans [OF auto_final_parameters_lookup [OF b(4)] auto_final_parameters_defaults(4)])
qed

theorem auto_parameters_depend_on_name_thickness_settings_count_witness:
  "WriteFile ''a.txt''
     (write_parameters str_decimal (auto_final_parameters ''dxfs/part'' None 2 (3 / 100) None))
     \<in> set (fst (generate_auto_parameters_file sample_env str_decimal ''dxfs/part'' ''a.txt''
                    (3 / 100) None None))
   \<and> WriteFile ''b.txt''
     (write_parameters str_decimal (auto_final_parameters ''dxfs/part'' None 2 (3 / 100) None))
     \<in> set (fst (generate_auto_parameters_file other_env str_decimal ''elsewhere'' ''b.txt''
                    (3 / 100) (Some ''part'') None))
   \<and> map_of (auto_final_parameters ''dxfs/part'' None 2 (3 / 100) None) ''MINX''
       = Some (PFloat (- (79 / 10)))"
proof -
  note t = auto_parameters_depend_on_name_thickness_settings_count
  have f1: "filter is_layer_file [''a_layer0.dxf'', ''notes.md'', ''A_LAYER1.DXF'']
              = [''a_layer0.dxf'', ''A_LAYER1.DXF'']"
    and f2: "filter is_layer_file [''0.TXT'', ''readme'', ''1.txt''] = [''0.TXT'', ''1.txt'']"
    and i: "is_layer_file ''a_layer0.dxf''" "\<not> is_layer_file ''notes.md''"
           "is_layer_file ''A_LAYER1.DXF''" "is_layer_file ''0.TXT''"
           "\<not> is_layer_file ''readme''" "is_layer_file ''1.txt''"
    and d: "dirname ''a.txt'' = []" "dirname ''b.txt'' = []"
    and e: "effective_part_name ''dxfs/part'' None = effective_part_name ''elsewhere'' (Some ''part'')"
    by code_simp+
  have l1: "listdir sample_env ''dxfs/part'' = Inr [''a_layer0.dxf'', ''notes.md'', ''A_LAYER1.DXF'']"
    and l2: "listdir other_env ''elsewhere'' = Inr [''0.TXT'', ''readme'', ''1.txt'']"
    by (simp_all add: sample_env_def other_env_def quiet_env_def)
  have w1: "WriteFile ''a.txt''
     (write_parameters str_decimal (auto_final_parameters ''dxfs/part'' None 2 (3 / 100) None))
     \<in> set (fst (generate_auto_parameters_file sample_env str_decimal ''dxfs/part'' ''a.txt''
                    (3 / 100) None None))"
    using t [where ?env1.0 = sample_env and ?folder1.0 = "''dxfs/part''"
               and ?names1.0 = "[''a_layer0.dxf'', ''notes.md'', ''A_LAYER1.DXF'']"
               and ?out1.0 = "''a.txt''" and str_float = str_decimal
               and layer_thickness = "3 / 100" and ?part_name1.0 = None
               and machine_settings = None, THEN conjunct2, THEN conjunct1]
    by (simp add: l1 i d sample_env_def quiet_env_def)
  have w2: "WriteFile ''b.txt''
     (write_parameters str_decimal (auto_final_parameters ''elsewhere'' (Some ''part'') 2 (3 / 100) None))
     \<in> set (fst (generate_auto_parameters_file other_env str_decimal ''elsewhere'' ''b.txt''
                    (3 / 100) (Some ''part'') None))"
    using t [where ?env1.0 = other_env and ?folder1.0 = "''elsewhere''"
               and ?names1.0 = "[''0.TXT'', ''readme'', ''1.txt'']"
               and ?out1.0 = "''b.txt''" and str_float = str_decimal
               and layer_thickness = "3 / 100" and ?part_name1.0 = "Some ''part''"
               and machine_settings = None, THEN conjunct2, THEN conjunct1]
    by (simp add: l2 i d other_env_def quiet_env_def)
  have eq: "write_parameters str_decimal (auto_final_parameters ''dxfs/part'' None 2 (3 / 100) None)
          = write_parameters str_decimal
              (auto_final_parameters ''elsewhere'' (Some ''part'') 2 (3 / 100) None)"
    using t [where ?env1.0 = sample_env and ?folder1.0 = "''dxfs/part''" and ?out1.0 = "''a.txt''"
               and ?env2.0 = other_env and ?folder2.0 = "''elsewhere''" and ?out2.0 = "''b.txt''"
               and ?names1.0 = "[''a_layer0.dxf'', ''notes.md'', ''A_LAYER1.DXF'']"
               and ?names2.0 = "[''0.TXT'', ''readme'', ''1.txt'']"
               and str_float = str_decimal and layer_thickness = "3 / 100"
               and ?part_name1.0 = None and ?part_name2.0 = "Some ''part''"
               and machine_settings = None
               and ?p1.0 = "''a.txt''" and ?p2.0 = "''b.txt''"
               and ?c1.0 = "write_parameters str_decimal
                              (auto_final_parameters ''dxfs/part'' None 2 (3 / 100) None)"
               and ?c2.0 = "write_parameters str_decimal
                              (auto_final_parameters ''elsewhere'' (Some ''part'') 2 (3 / 100) None)",
             THEN conjunct1]
          w1 w2 l1 l2 e
    by (simp add: i)
  have m: "map_of (auto_final_parameters ''dxfs/part'' None 2 (3 / 100) None) ''MINX''
       = Some (PFloat (- (79 / 10)))"
    using t [where machine_settings = None and ?folder1.0 = "''dxfs/part''"
               and ?part_name1.0 = None and n = 2 and layer_thickness = "3 / 100",
             THEN conjunct2, THEN conjunct2]
    by simp
  from w1 w2 [folded eq] m show ?thesis by blast
qed

text \<open>
  The claim says that the four bounds are always the fixed ones.  With
  \<open>machine_settings = {"MINX": 0.0}\<close> the table holds \<open>MINX = 0.0\<close>, and the file
  that is written starts with \<open>[PART NAME]\<close>, \<open>part\<close>, \<open>[MINX]\<close>, \<open>0.0\<close>.
\<close>

theorem machine_settings_override_minx_counterexample:
  "map_of (auto_final_parameters ''dxfs/part'' (Some ''part'') 2 (3 / 100)
             (Some [(''MINX'', PFloat 0)])) ''MINX'' = Some (PFloat 0)
   \<and> PFloat 0 \<noteq> PFloat (- (79 / 10))
   \<and> WriteFile ''a.txt''
        (write_parameters str_decimal
           (auto_final_parameters ''dxfs/part'' (Some ''part'') 2 (3 / 100)
              (Some [(''MINX'', PFloat 0)])))
        \<in> set (fst (generate_auto_parameters_file sample_env str_decimal ''dxfs/part'' ''a.txt''
                       (3 / 100) (Some ''part'') (Some [(''MINX'', PFloat 0)])))
   \<and> take 28 (write_parameters str_decimal
                 (auto_final_parameters ''dxfs/part'' (Some ''part'') 2 (3 / 100)
                    (Some [(''MINX'', PFloat 0)])))
       = unlines [''[PART NAME]'', ''part'', ''[MINX]'', ''0.0'']"
proof -
  have a: "map_of (auto_final_parameters ''dxfs/part'' (Some ''part'') 2 (3 / 100)
             (Some [(''MINX'', PFloat 0)])) ''MINX'' = Some (PFloat 0)"
    by (simp add: auto_final_parameters_Some map_of_dict_set)
  have b: "PFloat 0 \<noteq> PFloat (- (79 / 10))" by simp
  have f1: "filter is_layer_file [''a_layer0.dxf'', ''notes.md'', ''A_LAYER1.DXF'']
              = [''a_layer0.dxf'', ''A_LAYER1.DXF'']"
    and i: "is_layer_file ''a_layer0.dxf''" "\<not> is_layer_file ''notes.md''"
           "is_layer_file ''A_LAYER1.DXF''"
    and d: "dirname ''a.txt'' = []"
    by code_simp+
  have c: "WriteFile ''a.txt''
        (write_parameters str_decimal
           (auto_final_parameters ''dxfs/part'' (Some ''part'') 2 (3 / 100)
              (Some [(''MINX'', PFloat 0)])))
        \<in> set (fst (generate_auto_parameters_file sample_env str_decimal ''dxfs/part'' ''a.txt''
                       (3 / 100) (Some ''part'') (Some [(''MINX'', PFloat 0)])))"
    using auto_parameters_success_written
            [where env = sample_env and input_dxf_folder = "''dxfs/part''"
               and names = "[''a_layer0.dxf'', ''notes.md'', ''A_LAYER1.DXF'']"
               and output_file_path = "''a.txt''" and str_float = str_decimal
               and layer_thickness = "3 / 100" and part_name = "Some ''part''"
               and machine_settings = "Some [(''MINX'', PFloat 0)]"]
    by (simp add: i d sample_env_def quiet_env_def)
  have e: "take 28 (write_parameters str_decimal
                 (auto_final_parameters ''dxfs/part'' (Some ''part'') 2 (3 / 100)
                    (Some [(''MINX'', PFloat 0)])))
       = unlines [''[PART NAME]'', ''part'', ''[MINX]'', ''0.0'']"
    by code_simp
  from a b c e show ?thesis by blast
qed

section \<open>Properties of the slicing\<close>

lemma saved_paths_append: "saved_paths (xs @ ys) = saved_paths xs @ saved_paths ys"
  by (simp add: saved_paths_def)

lemma saved_paths_Nil: "saved_paths [] = []"
  by (simp add: saved_paths_def)

lemma saved_paths_SaveAs: "saved_paths [SaveAs p d] = [p]"
  by (simp add: saved_paths_def)

lemma saved_paths_Print: "saved_paths (Print m # ev) = saved_paths ev"
  by (simp add: saved_paths_def)

lemma saved_paths_PlotLayers: "saved_paths (PlotLayers ls # ev) = saved_paths ev"
  by (simp add: saved_paths_def)

lemma export_layer_to_dxf_events:
  "export_layer_to_dxf env layer path = (ev, r) \<Longrightarrow>
     (\<exists>e. r = Inl e \<and> ev = []) \<or> (\<exists>doc. r = Inr () \<and> ev = [SaveAs path doc])"
  by (auto simp: export_layer_to_dxf_def Let_def split: sum.splits option.splits)

lemma layer_has_geometry_Suc:
  "layer_has_geometry lib supports (hatchAngle + HATCH_ANGLE_INCREMENT) rest j
     = layer_has_geometry lib supports hatchAngle (z # rest) (Suc j)"
proof -
  have e: "hatchAngle + HATCH_ANGLE_INCREMENT + (of_nat j + 1) * HATCH_ANGLE_INCREMENT
          = hatchAngle + (of_nat (Suc j) + 1) * HATCH_ANGLE_INCREMENT"
    by (simp add: algebra_simps)
  show ?thesis unfolding layer_has_geometry_def e by simp
qed

lemma layer_has_geometry_0:
  "layer_has_geometry lib supports hatchAngle (z # rest) 0
     = (case build_layer lib supports (hatchAngle + HATCH_ANGLE_INCREMENT) z of
          Inl e \<Rightarrow> False | Inr layer \<Rightarrow> layer_geometry layer \<noteq> [])"
  by (simp add: layer_has_geometry_def)

lemma filter_upt_Suc:
  "filter P [0 ..< Suc n] = (if P 0 then [0] else []) @ map Suc (filter (\<lambda>j. P (Suc j)) [0 ..< n])"
proof -
  have "[0 ..< Suc n] = 0 # map Suc [0 ..< n]"
    by (simp add: upt_conv_Cons map_Suc_upt del: upt_Suc)
  then show ?thesis by (simp add: filter_map comp_def del: upt_Suc)
qed

lemma loop_saves_stop:
  "loop_saves lib supports folder model_name zs layer_idx hatchAngle ev (ev, Inl e)"
  unfolding loop_saves_def by (rule exI [of _ 0]) simp

lemma loop_saves_step:
  assumes rest: "loop_saves lib supports folder model_name rest (Suc layer_idx)
                   (hatchAngle + HATCH_ANGLE_INCREMENT) ev1 out"
    and ev1: "saved_paths ev1 = saved_paths ev
                @ (if layer_has_geometry lib supports hatchAngle (z # rest) 0
                   then [layer_dxf_name folder model_name layer_idx] else [])"
  shows "loop_saves lib supports folder model_name (z # rest) layer_idx hatchAngle ev out"
proof -
  from rest obtain n where n: "n \<le> length rest"
    and p: "saved_paths (fst out)
          = saved_paths ev1 @ map (\<lambda>j. layer_dxf_name folder model_name (Suc layer_idx + j))
              (filter (layer_has_geometry lib supports (hatchAngle + HATCH_ANGLE_INCREMENT) rest)
                 [0 ..< n])"
    and f: "(\<exists>ls. snd out = Inr ls) \<longrightarrow> n = length rest"
    unfolding loop_saves_def by blast
  have 0: "Suc n \<le> length (z # rest)" using n by simp
  have 1: "saved_paths (fst out)
             = saved_paths ev @ map (\<lambda>j. layer_dxf_name folder model_name (layer_idx + j))
                 (filter (layer_has_geometry lib supports hatchAngle (z # rest)) [0 ..< Suc n])"
    unfolding p ev1 filter_upt_Suc
    by (simp add: comp_def layer_has_geometry_Suc [symmetric])
  have 3: "(\<exists>ls. snd out = Inr ls) \<longrightarrow> Suc n = length (z # rest)"
    using f by simp
  from 0 1 3 show ?thesis unfolding loop_saves_def by blast
qed

lemma slice_loop_saves:
  "loop_saves lib supports folder model_name zs layer_idx hatchAngle ev
     (slice_loop lib env supports folder model_name zs layer_idx hatchAngle all_layers ev)"
proof (induction zs arbitrary: layer_idx hatchAngle all_layers ev)
  case Nil
  show ?case unfolding loop_saves_def by (rule exI [of _ 0]) simp
next
  case (Cons z rest)
  show ?case
  proof (cases "build_layer lib supports (hatchAngle + HATCH_ANGLE_INCREMENT) z")
    case (Inl e)
    then show ?thesis by (simp add: loop_saves_stop)
  next
    case (Inr current_layer)
    show ?thesis
    proof (cases "layer_geometry current_layer \<noteq> []")
      case False
      have "loop_saves lib supports folder model_name (z # rest) layer_idx hatchAngle ev
              (slice_loop lib env supports folder model_name rest (Suc layer_idx)
                 (hatchAngle + HATCH_ANGLE_INCREMENT) all_layers ev)"
        by (rule loop_saves_step [where ?ev1.0 = ev, OF Cons.IH])
           (simp add: layer_has_geometry_0 Inr False)
      with Inr False show ?thesis by simp
    next
      case True
      obtain ev' r where x: "export_layer_to_dxf env current_layer
                               (layer_dxf_name folder model_name layer_idx) = (ev', r)"
        by (cases "export_layer_to_dxf env current_layer
                     (layer_dxf_name folder model_name layer_idx)") auto
      from export_layer_to_dxf_events [OF x]
      show ?thesis
      proof
        assume "\<exists>e. r = Inl e \<and> ev' = []"
        then obtain e where "r = Inl e" "ev' = []" by blast
        with Inr True x show ?thesis by (simp add: loop_saves_stop)
      next
        assume "\<exists>doc. r = Inr () \<and> ev' = [SaveAs (layer_dxf_name folder model_name layer_idx) doc]"
        then obtain doc where r: "r = Inr ()"
          and e: "ev' = [SaveAs (layer_dxf_name folder model_name layer_idx) doc]" by blast
        have "loop_saves lib supports folder model_name (z # rest) layer_idx hatchAngle ev
                (slice_loop lib env supports folder model_name rest (Suc layer_idx)
                   (hatchAngle + HATCH_ANGLE_INCREMENT) (all_layers @ [current_layer]) (ev @ ev'))"
          by (rule loop_saves_step [where ?ev1.0 = "ev @ ev'", OF Cons.IH])
             (simp add: layer_has_geometry_0 Inr True e saved_paths_append saved_paths_SaveAs)
        with Inr True x r show ?thesis by simp
      qed
    qed
  qed
qed

lemma z_positions_of_arange:
  assumes "mn < mx"
  shows "z_positions_of mn mx nl = arange mn (mx + LAYER_THICKNESS / 2) LAYER_THICKNESS"
proof -
  have "0 < (mx + LAYER_THICKNESS / 2 - mn) / LAYER_THICKNESS"
    using assms by (simp add: LAYER_THICKNESS_def)
  then have "0 < \<lceil>(mx + LAYER_THICKNESS / 2 - mn) / LAYER_THICKNESS\<rceil>"
    by (simp only: zero_less_ceiling)
  then have "length (arange mn (mx + LAYER_THICKNESS / 2) LAYER_THICKNESS) \<noteq> 0"
    by (simp add: arange_def)
  then show ?thesis by (simp add: z_positions_of_def Let_def)
qed

lemma slice_layers_saves:
  "loop_saves lib supports folder model_name (z_positions_of mn mx nl) 0 HATCH_ANGLE_INITIAL ev0
     (slice_layers lib env supports folder model_name mn mx nl ev0)"
proof -
  let ?zs = "z_positions_of mn mx nl"
  obtain ev r where l: "slice_loop lib env supports folder model_name ?zs 0 HATCH_ANGLE_INITIAL [] ev0
                          = (ev, r)"
    by (cases "slice_loop lib env supports folder model_name ?zs 0 HATCH_ANGLE_INITIAL [] ev0") auto
  have s: "loop_saves lib supports folder model_name ?zs 0 HATCH_ANGLE_INITIAL ev0 (ev, r)"
    using slice_loop_saves [of lib supports folder model_name ?zs 0 HATCH_ANGLE_INITIAL ev0 env "[]"]
    unfolding l .
  show ?thesis
  proof (cases r)
    case (Inl e)
    with l s show ?thesis by (simp add: slice_layers_def loop_saves_def)
  next
    case (Inr ls)
    with l s show ?thesis
      by (simp add: slice_layers_def loop_saves_def saved_paths_append saved_paths_Print
                    saved_paths_PlotLayers saved_paths_Nil)
  qed
qed

lemma loop_saves_events:
  "saved_paths ev = saved_paths ev' \<Longrightarrow>
     loop_saves lib supports folder model_name zs layer_idx hatchAngle ev out
       = loop_saves lib supports folder model_name zs layer_idx hatchAngle ev' out"
  by (simp only: loop_saves_def)

lemma loop_saves_initial:
  fixes out :: "('c, unit) outcome"
  assumes "loop_saves lib supports folder model_name zs 0 hatchAngle [] out"
  shows "\<exists>n. n \<le> length zs
           \<and> saved_paths (fst out)
              = map (layer_dxf_name folder model_name)
                  (filter (layer_has_geometry lib supports hatchAngle zs) [0 ..< n])
           \<and> (snd out = Inr () \<longrightarrow> n = length zs)"
proof -
  from assms have "\<exists>n. n \<le> length zs
          \<and> saved_paths (fst out)
             = saved_paths ([] :: 'c event list) @ map (\<lambda>j. layer_dxf_name folder model_name (0 + j))
                                  (filter (layer_has_geometry lib supports hatchAngle zs) [0 ..< n])
          \<and> ((\<exists>ls. snd out = Inr ls) \<longrightarrow> n = length zs)"
    unfolding loop_saves_def .
  then obtain n where nn: "n \<le> length zs
          \<and> saved_paths (fst out)
             = saved_paths ([] :: 'c event list) @ map (\<lambda>j. layer_dxf_name folder model_name (0 + j))
                                  (filter (layer_has_geometry lib supports hatchAngle zs) [0 ..< n])
          \<and> ((\<exists>ls. snd out = Inr ls) \<longrightarrow> n = length zs)" ..
  from nn have n: "n \<le> length zs" by (rule conjunct1)
  from nn have p: "saved_paths (fst out)
             = saved_paths ([] :: 'c event list) @ map (\<lambda>j. layer_dxf_name folder model_name (0 + j))
                                  (filter (layer_has_geometry lib supports hatchAngle zs) [0 ..< n])"
    by (rule conjunct2 [THEN conjunct1])
  from nn have f: "(\<exists>ls. snd out = Inr ls) \<longrightarrow> n = length zs"
    by (rule conjunct2 [THEN conjunct2])
  have p': "saved_paths (fst out)
              = map (layer_dxf_name folder model_name)
                  (filter (layer_has_geometry lib supports hatchAngle zs) [0 ..< n])"
    unfolding p saved_paths_Nil by simp
  have f': "snd out = Inr () \<longrightarrow> n = length zs"
  proof
    assume "snd out = Inr ()"
    then have "\<exists>ls. snd out = Inr ls" by (rule exI)
    with f show "n = length zs" by (rule mp)
  qed
  show ?thesis
    by (rule exI [of _ n]) (intro conjI n p' f')
qed

lemma slice_and_export_raw_dxfs_flat:
  assumes "z_bounds_overall lib supports_to_slice = (min_z_overall, max_z_overall)"
    and le: "max_z_overall \<le> min_z_overall"
  shows "slice_and_export_raw_dxfs lib env supports_to_slice output_dxf_bruto_folder model_name
              = ([Print (NL @ ''--- Slicing to Raw DXFs ---''),
                  Print (''Slicing and processing layers for '' @ quoted model_name
                         @ '' (Raw DXF)...''),
                  Print (''Warning: Part '' @ quoted model_name
                         @ '' has zero or negative height. No layers will be generated.'')],
                 Inr ())"
proof -
  from le have n: "\<not> min_z_overall < max_z_overall" by simp
  show ?thesis
    unfolding slice_and_export_raw_dxfs_def assms(1) Let_def prod.case
    by (simp only: le n if_True if_False simp_thms append.simps)
qed

lemma slice_and_export_raw_dxfs_saves:
  assumes "z_bounds_overall lib supports_to_slice = (min_z_overall, max_z_overall)"
    and lt: "min_z_overall < max_z_overall"
  shows "loop_saves lib supports_to_slice output_dxf_bruto_folder model_name
           (arange min_z_overall (max_z_overall + LAYER_THICKNESS / 2) LAYER_THICKNESS)
           0 HATCH_ANGLE_INITIAL []
           (slice_and_export_raw_dxfs lib env supports_to_slice output_dxf_bruto_folder
              model_name)"
proof -
  from lt have n: "\<not> max_z_overall \<le> min_z_overall" by simp
  define ev0 :: "'a event list"
    where "ev0 = [Print (NL @ ''--- Slicing to Raw DXFs ---''),
                  Print (''Slicing and processing layers for '' @ quoted model_name
                         @ '' (Raw DXF)...'')]"
  have e: "saved_paths ev0 = saved_paths ([] :: 'a event list)"
    unfolding ev0_def by (simp only: saved_paths_Print)
  obtain nl where r: "slice_and_export_raw_dxfs lib env supports_to_slice output_dxf_bruto_folder
                        model_name
                      = slice_layers lib env supports_to_slice output_dxf_bruto_folder model_name
                          min_z_overall max_z_overall nl ev0"
    unfolding slice_and_export_raw_dxfs_def assms(1) Let_def prod.case ev0_def
    by (cases "\<lceil>(max_z_overall - min_z_overall) / LAYER_THICKNESS\<rceil> = 0")
       (simp_all only: lt n if_True if_False simp_thms)
  have "loop_saves lib supports_to_slice output_dxf_bruto_folder model_name
          (z_positions_of min_z_overall max_z_overall nl) 0 HATCH_ANGLE_INITIAL ev0
          (slice_layers lib env supports_to_slice output_dxf_bruto_folder model_name
             min_z_overall max_z_overall nl ev0)"
    by (rule slice_layers_saves)
  then show ?thesis
    unfolding r z_positions_of_arange [OF lt] loop_saves_events [OF e] .
qed

text \<open>
  C10.  When the overall maximum height is less than or equal to the overall
  minimum height, \<open>slice_and_export_raw_dxfs\<close> prints its two messages and the
  warning, and returns: no document is saved.  Otherwise the heights are
  \<open>arange(min, max + LAYER_THICKNESS / 2, LAYER_THICKNESS)\<close>, and the documents
  saved are, in order, those of the heights whose layer has a non-empty geometry
  list, among the first \<open>n\<close> heights: all of them when the function returns
  normally, those before the height at which an exception left the loop
  otherwise.  The document of the \<open>j\<close>-th height is named
  \<open>{model_name}_layer{j}.dxf\<close> whether or not the heights before it were saved:
  the index counts every height, so the indices of the saved files can have
  gaps.
\<close>

theorem raw_dxf_written_only_for_layers_with_geometry:
  assumes "z_bounds_overall lib supports_to_slice = (min_z_overall, max_z_overall)"
  shows "(max_z_overall \<le> min_z_overall \<longrightarrow>
            slice_and_export_raw_dxfs lib env supports_to_slice output_dxf_bruto_folder model_name
              = ([Print (NL @ ''--- Slicing to Raw DXFs ---''),
                  Print (''Slicing and processing layers for '' @ quoted model_name
                         @ '' (Raw DXF)...''),
                  Print (''Warning: Part '' @ quoted model_name
                         @ '' has zero or negative height. No layers will be generated.'')],
                 Inr ())
            \<and> saved_paths (fst (slice_and_export_raw_dxfs lib env supports_to_slice
                                   output_dxf_bruto_folder model_name)) = [])
       \<and> (min_z_overall < max_z_overall \<longrightarrow>
            (\<exists>n. n \<le> length (arange min_z_overall (max_z_overall + LAYER_THICKNESS / 2)
                                LAYER_THICKNESS)
                \<and> saved_paths (fst (slice_and_export_raw_dxfs lib env supports_to_slice
                                       output_dxf_bruto_folder model_name))
                   = map (layer_dxf_name output_dxf_bruto_folder model_name)
                       (filter (layer_has_geometry lib supports_to_slice HATCH_ANGLE_INITIAL
                                  (arange min_z_overall (max_z_overall + LAYER_THICKNESS / 2)
                                     LAYER_THICKNESS))
                               [0 ..< n])
                \<and> (snd (slice_and_export_raw_dxfs lib env supports_to_slice
                            output_dxf_bruto_folder model_name) = Inr ()
                     \<longrightarrow> n = length (arange min_z_overall (max_z_overall + LAYER_THICKNESS / 2)
                                       LAYER_THICKNESS))))"
proof (intro conjI impI)
  assume le: "max_z_overall \<le> min_z_overall"
  show w: "slice_and_export_raw_dxfs lib env supports_to_slice output_dxf_bruto_folder model_name
              = ([Print (NL @ ''--- Slicing to Raw DXFs ---''),
                  Print (''Slicing and processing layers for '' @ quoted model_name
                         @ '' (Raw DXF)...''),
                  Print (''Warning: Part '' @ quoted model_name
                         @ '' has zero or negative height. No layers will be generated.'')],
                 Inr ())"
    by (rule slice_and_export_raw_dxfs_flat [OF assms le])
  show "saved_paths (fst (slice_and_export_raw_dxfs lib env supports_to_slice
                                   output_dxf_bruto_folder model_name)) = []"
    unfolding w fst_conv by (simp only: saved_paths_Print saved_paths_Nil)
next
  assume lt: "min_z_overall < max_z_overall"
  show "\<exists>n. n \<le> length (arange min_z_overall (max_z_overall + LAYER_THICKNESS / 2)
                            LAYER_THICKNESS)
            \<and> saved_paths (fst (slice_and_export_raw_dxfs lib env supports_to_slice
                                   output_dxf_bruto_folder model_name))
               = map (layer_dxf_name output_dxf_bruto_folder model_name)
                   (filter (layer_has_geometry lib supports_to_slice HATCH_ANGLE_INITIAL
                              (arange min_z_overall (max_z_overall + LAYER_THICKNESS / 2)
                                 LAYER_THICKNESS))
                           [0 ..< n])
            \<and> (snd (slice_and_export_raw_dxfs lib env supports_to_slice
                        output_dxf_bruto_folder model_name) = Inr ()
                 \<longrightarrow> n = length (arange min_z_overall (max_z_overall + LAYER_THICKNESS / 2)
                                   LAYER_THICKNESS))"
    by (rule loop_saves_initial [OF slice_and_export_raw_dxfs_saves [OF assms lt]])
qed

text \<open>
  Of the three heights \<open>0\<close>, \<open>0.03\<close>, \<open>0.06\<close> of the sample part, the second
  has no geometry: the files saved are those of the indices 0 and 2.
\<close>

theorem raw_dxf_written_only_for_layers_with_geometry_witness:
  "z_bounds_overall sample_part [] = (0, 3 / 50)
   \<and> arange 0 (3 / 50 + LAYER_THICKNESS / 2) LAYER_THICKNESS = [0, 3 / 100, 3 / 50]
   \<and> map (layer_has_geometry sample_part [] HATCH_ANGLE_INITIAL [0, 3 / 100, 3 / 50]) [0, 1, 2]
       = [True, False, True]
   \<and> saved_paths (fst (slice_and_export_raw_dxfs sample_part empty_env [] ''out'' ''part''))
       = [''out/part_layer0.dxf'', ''out/part_layer2.dxf'']
   \<and> z_bounds_overall flat_part [] = (0, 0)
   \<and> slice_and_export_raw_dxfs flat_part empty_env [] ''out'' ''part''
       = ([Print (NL @ ''--- Slicing to Raw DXFs ---''),
           Print (''Slicing and processing layers for '' @ quoted ''part'' @ '' (Raw DXF)...''),
           Print (''Warning: Part '' @ quoted ''part''
                  @ '' has zero or negative height. No layers will be generated.'')],
          Inr ())"
proof -
  let ?zs = "[0, 3 / 100, 3 / 50] :: rat list"
  let ?out = "slice_and_export_raw_dxfs sample_part empty_env [] ''out'' ''part''"
  have zb: "z_bounds_overall sample_part [] = (0, 3 / 50)"
    by (simp add: z_bounds_overall_def sample_part_def)
  have zs: "arange 0 (3 / 50 + LAYER_THICKNESS / 2) LAYER_THICKNESS = ?zs"
    by code_simp
  have g0: "layer_has_geometry sample_part [] HATCH_ANGLE_INITIAL ?zs 0"
    by code_simp
  have g1: "\<not> layer_has_geometry sample_part [] HATCH_ANGLE_INITIAL ?zs (Suc 0)"
    by code_simp
  have g2: "layer_has_geometry sample_part [] HATCH_ANGLE_INITIAL ?zs 2"
    by code_simp
  have ok: "snd ?out = Inr ()"
    by code_simp
  have n0: "layer_dxf_name ''out'' ''part'' 0 = ''out/part_layer0.dxf''"
    by code_simp
  have n2: "layer_dxf_name ''out'' ''part'' 2 = ''out/part_layer2.dxf''"
    by code_simp
  have f: "filter (layer_has_geometry sample_part [] HATCH_ANGLE_INITIAL ?zs) [0 ..< 3] = [0, 2]"
    using g0 g1 g2 by (simp add: upt_rec numeral_2_eq_2 numeral_3_eq_3)
  have "(0 :: rat) < 3 / 50" by simp
  with raw_dxf_written_only_for_layers_with_geometry
         [OF zb, where env = empty_env and output_dxf_bruto_folder = "''out''"
            and model_name = "''part''"]
  have "\<exists>n. n \<le> length ?zs
           \<and> saved_paths (fst ?out)
              = map (layer_dxf_name ''out'' ''part'')
                  (filter (layer_has_geometry sample_part [] HATCH_ANGLE_INITIAL ?zs) [0 ..< n])
           \<and> (snd ?out = Inr () \<longrightarrow> n = length ?zs)"
    unfolding zs by (elim conjE) (erule (1) impE)
  then obtain n where nn: "n \<le> length ?zs
           \<and> saved_paths (fst ?out)
              = map (layer_dxf_name ''out'' ''part'')
                  (filter (layer_has_geometry sample_part [] HATCH_ANGLE_INITIAL ?zs) [0 ..< n])
           \<and> (snd ?out = Inr () \<longrightarrow> n = length ?zs)" ..
  from nn ok have n: "n = 3" by simp
  from nn have "saved_paths (fst ?out)
              = map (layer_dxf_name ''out'' ''part'')
                  (filter (layer_has_geometry sample_part [] HATCH_ANGLE_INITIAL ?zs) [0 ..< n])"
    by (rule conjunct2 [THEN conjunct1])
  then have sp: "saved_paths (fst ?out) = [''out/part_layer0.dxf'', ''out/part_layer2.dxf'']"
    unfolding n f list.map n0 n2 .
  have gs: "map (layer_has_geometry sample_part [] HATCH_ANGLE_INITIAL ?zs) [0, 1, 2]
              = [True, False, True]"
    using g0 g1 g2 by simp
  have zf: "z_bounds_overall flat_part [] = (0, 0)"
    by (simp add: z_bounds_overall_def flat_part_def sample_part_def)
  have "(0 :: rat) \<le> 0" by simp
  with raw_dxf_written_only_for_layers_with_geometry
         [OF zf, where env = empty_env and output_dxf_bruto_folder = "''out''"
            and model_name = "''part''"]
  have fl: "slice_and_export_raw_dxfs flat_part empty_env [] ''out'' ''part''
       = ([Print (NL @ ''--- Slicing to Raw DXFs ---''),
           Print (''Slicing and processing layers for '' @ quoted ''part'' @ '' (Raw DXF)...''),
           Print (''Warning: Part '' @ quoted ''part''
                  @ '' has zero or negative height. No layers will be generated.'')],
          Inr ())"
    by (elim conjE) (erule (1) impE, erule conjunct1)
  show ?thesis
    by (intro conjI zb zs gs sp zf fl)
qed

end
